theory Spec2Isabelle
  imports Main "HOL-Library.AList"
begin

section \<open>Python values\<close>

text \<open>
  The compiler works on plain nested Python data: \<open>None\<close>, booleans, integers, strings,
  lists and dictionaries. A dictionary keeps its insertion order (\<open>quotas.items()\<close> is
  iterated in that order), so it is an association list with string keys:
  \<open>d[k] = v\<close> is \<open>AList.update k v d\<close> (an existing key keeps its place, a new key goes to
  the end), \<open>d.pop(k, default)\<close> leaves \<open>AList.delete k d\<close>, and \<open>d.get(k)\<close> is
  \<open>map_of d k\<close>. Floating point values are not modelled.
\<close>

datatype json =
    JNull
  | JBool bool
  | JInt int
  | JStr string
  | JList "json list"
  | JDict "(string \<times> json) list"

text \<open>
  Exceptions. \<open>TypeError msg\<close> is a \<open>TypeError\<close> raised by a \<open>raise\<close> statement of the
  source with its message; \<open>InterpTypeError\<close> is a \<open>TypeError\<close> raised by the interpreter
  itself (subscripting or iterating a value that does not support it, an unhashable
  dictionary key), \<open>AttributeError\<close> a method call on a value without that method. The
  interpreter's message texts differ between Python versions and are left out.
\<close>

datatype error =
    KeyError json
  | TypeError string
  | InterpTypeError
  | AttributeError

text \<open>\<open>obj.get(key)\<close>: only a dictionary has the method.\<close>

fun py_get :: "json \<Rightarrow> string \<Rightarrow> error + json option" where
  "py_get (JDict d) k = Inr (map_of d k)"
| "py_get _ k = Inl AttributeError"

text \<open>\<open>obj.get(key, default)\<close>.\<close>

definition py_get_default :: "json \<Rightarrow> string \<Rightarrow> json \<Rightarrow> error + json" where
  "py_get_default obj k dflt =
     (case py_get obj k of
        Inl e \<Rightarrow> Inl e
      | Inr None \<Rightarrow> Inr dflt
      | Inr (Some v) \<Rightarrow> Inr v)"

text \<open>\<open>obj[key]\<close> with a string key: \<open>KeyError\<close> on a dictionary without the key,
  \<open>TypeError\<close> on every other value.\<close>

fun py_getitem :: "json \<Rightarrow> string \<Rightarrow> error + json" where
  "py_getitem (JDict d) k =
     (case map_of d k of None \<Rightarrow> Inl (KeyError (JStr k)) | Some v \<Rightarrow> Inr v)"
| "py_getitem _ k = Inl InterpTypeError"

text \<open>\<open>obj[key] = v\<close> with a string key: only a dictionary accepts it.\<close>

fun py_setitem :: "json \<Rightarrow> string \<Rightarrow> json \<Rightarrow> error + json" where
  "py_setitem (JDict d) k v = Inr (JDict (AList.update k v d))"
| "py_setitem _ k v = Inl InterpTypeError"

text \<open>The elements a \<open>for\<close> loop (or \<open>list.extend\<close>) draws from a value: the elements of a
  list, the keys of a dictionary, the characters of a string; \<open>None\<close> when the value is
  not iterable.\<close>

fun py_iter :: "json \<Rightarrow> json list option" where
  "py_iter (JList xs) = Some xs"
| "py_iter (JDict d) = Some (map (\<lambda>kv. JStr (fst kv)) d)"
| "py_iter (JStr s) = Some (map (\<lambda>c. JStr [c]) s)"
| "py_iter _ = None"

text \<open>Read-only projections used to state properties of a payload: the value under a
  key, the value under a path of keys, and the entries of a list.\<close>

fun field :: "string \<Rightarrow> json \<Rightarrow> json option" where
  "field k (JDict d) = map_of d k"
| "field k _ = None"

fun path :: "string list \<Rightarrow> json \<Rightarrow> json option" where
  "path [] j = Some j"
| "path (k # ks) j = (case field k j of None \<Rightarrow> None | Some v \<Rightarrow> path ks v)"

fun entries :: "json \<Rightarrow> json list" where
  "entries (JList xs) = xs"
| "entries _ = []"


text \<open>Sequencing: an exception raised by the first step ends the whole computation.\<close>

definition and_then :: "'e + 'a \<Rightarrow> ('a \<Rightarrow> 'e + 'b) \<Rightarrow> 'e + 'b" where
  "and_then m f = (case m of Inl e \<Rightarrow> Inl e | Inr x \<Rightarrow> f x)"


section \<open>Provider-spec validation (\<open>calm/dsl/builtins/models/provider_spec.py\<close>)\<close>

definition spec_provider_map :: "(string \<times> string) list" where
  "spec_provider_map =
     [(''PROVISION_AHV_VM'', ''AHV_VM''),
      (''PROVISION_VMWARE_VM'', ''VMWARE_VM''),
      (''PROVISION_GCP_VM'', ''GCP_VM''),
      (''PROVISION_EXISTING_MACHINE'', ''EXISTING_VM''),
      (''PROVISION_AWS_VM'', ''AWS_VM''),
      (''PROVISION_AZURE_VM'', ''AZURE_VM'')]"

text \<open>\<open>spec_provider_map[spec_type]\<close>: a list or a dictionary is unhashable and cannot be
  looked up at all; every other value that is not one of the six keys is a \<open>KeyError\<close>.\<close>

fun spec_provider_map_getitem :: "json \<Rightarrow> error + string" where
  "spec_provider_map_getitem (JStr s) =
     (case map_of spec_provider_map s of
        None \<Rightarrow> Inl (KeyError (JStr s))
      | Some t \<Rightarrow> Inr t)"
| "spec_provider_map_getitem (JList xs) = Inl InterpTypeError"
| "spec_provider_map_getitem (JDict d) = Inl InterpTypeError"
| "spec_provider_map_getitem v = Inl (KeyError v)"

text \<open>The substrate class \<open>cls\<close> the descriptor is read from: its \<open>provider_type\<close> and its
  \<open>__name__\<close>.\<close>

record substrate =
  provider_type :: string
  cls_name :: string

definition mismatch_message :: "string \<Rightarrow> string \<Rightarrow> string \<Rightarrow> string" where
  "mismatch_message substrate_type spec_type nm =
     ''provider type mismatch in substrate('' @ substrate_type @
     '') and spec type('' @ spec_type @ '') at '' @ nm @ '' substrate!!!''"

text \<open>
  \<open>ProviderSpec.__validate__\<close>. \<open>get_provider\<close> and the provider's \<open>validate_spec\<close> live
  outside this file; they are the parameter \<open>validate_spec\<close>, which for a provider type
  and a spec either raises (\<open>Some e\<close>) or accepts (\<open>None\<close>), and is taken not to change
  the spec.
\<close>

definition ProviderSpec_validate ::
  "(string \<Rightarrow> json \<Rightarrow> error option) \<Rightarrow> json \<Rightarrow> string \<Rightarrow> error + json" where
  "ProviderSpec_validate validate_spec spec ptype =
     (case validate_spec ptype spec of
        Some e \<Rightarrow> Inl e
      | None \<Rightarrow> Inr spec)"

text \<open>\<open>ProviderSpec.__get__\<close>.\<close>

definition ProviderSpec_get ::
  "(string \<Rightarrow> json \<Rightarrow> error option) \<Rightarrow> json \<Rightarrow> substrate \<Rightarrow> error + json" where
  "ProviderSpec_get validate_spec spec cls =
     (case py_get_default spec ''type'' (JStr ''PROVISION_AHV_VM'') of
        Inl e \<Rightarrow> Inl e
      | Inr kind \<Rightarrow>
          (case spec_provider_map_getitem kind of
             Inl e \<Rightarrow> Inl e
           | Inr spec_type \<Rightarrow>
               if spec_type \<noteq> provider_type cls
               then Inl (TypeError
                      (mismatch_message (provider_type cls) spec_type (cls_name cls)))
               else ProviderSpec_validate validate_spec spec (provider_type cls)))"


section \<open>Project compilation (\<open>calm/dsl/builtins/models/project.py\<close>)\<close>

text \<open>
  \<open>ProjectType.compile\<close> starts from the dictionary \<open>cdict\<close> that \<open>super().compile()\<close>
  returns; \<open>EntityType\<close> is outside this file, so \<open>cdict\<close> is the input of the model.
  Lists are values here: \<open>cdict[k].extend(ys)\<close> stores the extended list back under \<open>k\<close>.
\<close>

type_synonym pydict = "(string \<times> json) list"

text \<open>\<open>if cdict.get(k) is None: cdict[k] = []\<close>\<close>

definition ensure_list :: "string \<Rightarrow> pydict \<Rightarrow> pydict" where
  "ensure_list k cdict =
     (if map_of cdict k = None \<or> map_of cdict k = Some JNull
      then AList.update k (JList []) cdict else cdict)"

text \<open>\<open>cdict[k].extend(src)\<close>: the attribute \<open>extend\<close> is looked up first (only a list
  has it), then \<open>src\<close> is iterated.\<close>

definition extend_at :: "string \<Rightarrow> json \<Rightarrow> pydict \<Rightarrow> error + pydict" where
  "extend_at k src cdict =
     (case map_of cdict k of
        None \<Rightarrow> Inl (KeyError (JStr k))
      | Some (JList xs) \<Rightarrow>
          (case py_iter src of
             None \<Rightarrow> Inl InterpTypeError
           | Some ys \<Rightarrow> Inr (AList.update k (JList (xs @ ys)) cdict))
      | Some _ \<Rightarrow> Inl AttributeError)"

text \<open>The body of \<open>if provider_type == "nutanix_pc":\<close> for the provider dictionary \<open>p\<close>.
  The external network list is read in the \<open>elif\<close> branch of the subnet test.\<close>

definition nutanix_pc_step :: "pydict \<Rightarrow> pydict \<Rightarrow> error + pydict" where
  "nutanix_pc_step p cdict =
     and_then
       (case map_of p ''subnet_reference_list'' of
          Some srl \<Rightarrow>
            extend_at ''subnet_reference_list'' srl
              (ensure_list ''subnet_reference_list'' cdict)
        | None \<Rightarrow>
            (case map_of p ''external_network_list'' of
               Some enl \<Rightarrow>
                 extend_at ''external_network_list'' enl
                   (ensure_list ''external_network_list'' cdict)
             | None \<Rightarrow> Inr cdict))
       (\<lambda>cdict'.
          case map_of p ''default_subnet_reference'' of
            Some dsr \<Rightarrow> Inr (AList.update ''default_subnet_reference'' dsr cdict')
          | None \<Rightarrow> Inr cdict')"

text \<open>One round of \<open>for provider_obj in provider_list\<close>.\<close>

fun provider_step :: "json \<Rightarrow> pydict \<Rightarrow> error + pydict" where
  "provider_step (JDict p) cdict =
     and_then (py_getitem (JDict p) ''provider_type'') (\<lambda>ptype.
     and_then (if ptype = JStr ''nutanix_pc'' then nutanix_pc_step p cdict else Inr cdict)
       (\<lambda>cdict'.
     and_then (py_getitem (JDict p) ''account_reference'') (\<lambda>ref.
       extend_at ''account_reference_list'' (JList [ref]) cdict')))"
| "provider_step _ cdict = Inl InterpTypeError"

fun provider_loop :: "json list \<Rightarrow> pydict \<Rightarrow> error + pydict" where
  "provider_loop [] cdict = Inr cdict"
| "provider_loop (p # ps) cdict = and_then (provider_step p cdict) (provider_loop ps)"

text \<open>Lines 19 to 41: the account reference list and the provider loop.\<close>

definition compile_providers :: "pydict \<Rightarrow> error + pydict" where
  "compile_providers cdict0 =
     (let cdict = AList.update ''account_reference_list'' (JList []) cdict0;
          provider_list =
            (case map_of cdict ''provider_list'' of None \<Rightarrow> JList [] | Some v \<Rightarrow> v);
          cdict = AList.delete ''provider_list'' cdict
      in case py_iter provider_list of
           None \<Rightarrow> Inl InterpTypeError
         | Some ps \<Rightarrow> provider_loop ps cdict)"

text \<open>Truth value of a Python object, as \<open>if quotas:\<close> tests it.\<close>

fun py_truthy :: "json \<Rightarrow> bool" where
  "py_truthy JNull = False"
| "py_truthy (JBool b) = b"
| "py_truthy (JInt i) = (i \<noteq> 0)"
| "py_truthy (JStr s) = (s \<noteq> [])"
| "py_truthy (JList xs) = (xs \<noteq> [])"
| "py_truthy (JDict d) = (d \<noteq> [])"

text \<open>\<open>qv *= n\<close> for an integer \<open>n\<close>: a number is multiplied (\<open>True\<close> counts as 1), a
  string or a list is repeated (no copy is left when \<open>n\<close> is not positive), \<open>None\<close> and
  a dictionary raise.\<close>

fun py_imul :: "json \<Rightarrow> int \<Rightarrow> error + json" where
  "py_imul (JInt i) n = Inr (JInt (i * n))"
| "py_imul (JBool b) n = Inr (JInt ((if b then 1 else 0) * n))"
| "py_imul (JStr s) n = Inr (JStr (concat (replicate (nat n) s)))"
| "py_imul (JList xs) n = Inr (JList (concat (replicate (nat n) xs)))"
| "py_imul _ n = Inl InterpTypeError"

text \<open>One round of \<open>for qk, qv in quotas.items()\<close>: the appended resource.\<close>

definition quota_resource :: "string \<times> json \<Rightarrow> error + json" where
  "quota_resource kv =
     (case kv of (qk, qv) \<Rightarrow>
        and_then (if qk \<noteq> ''VCPUS'' then py_imul qv 1073741824 else Inr qv) (\<lambda>qv'.
          Inr (JDict [(''limit'', qv'), (''resource_type'', JStr qk)])))"

fun quota_loop :: "(string \<times> json) list \<Rightarrow> error + json list" where
  "quota_loop [] = Inr []"
| "quota_loop (kv # kvs) =
     and_then (quota_resource kv) (\<lambda>r.
     and_then (quota_loop kvs) (\<lambda>rs. Inr (r # rs)))"

text \<open>Lines 43 to 52: the quotas.\<close>

definition compile_quotas :: "pydict \<Rightarrow> error + pydict" where
  "compile_quotas cdict0 =
     (let quotas = (case map_of cdict0 ''quotas'' of None \<Rightarrow> JNull | Some v \<Rightarrow> v);
          cdict = AList.delete ''quotas'' cdict0
      in if py_truthy quotas
         then (case quotas of
                 JDict q \<Rightarrow>
                   and_then (quota_loop q) (\<lambda>project_resources.
                     Inr (AList.update ''resource_domain''
                            (JDict [(''resources'', JList project_resources)]) cdict))
               | _ \<Rightarrow> Inl AttributeError)
         else Inr cdict)"

text \<open>\<open>ProjectType.compile\<close>, from the result of \<open>super().compile()\<close>.\<close>

definition compile :: "pydict \<Rightarrow> error + pydict" where
  "compile cdict =
     and_then (compile_providers cdict) (\<lambda>cdict.
     and_then (compile_quotas cdict) (\<lambda>cdict.
       Inr (AList.delete ''environment_definition_list'' cdict)))"


text \<open>
  The entry the specification describes for a quota \<open>(key, value)\<close>: the value times
  1,073,741,824 for every key but \<open>VCPUS\<close>, the value itself for \<open>VCPUS\<close>. It is
  compared with what \<open>compile\<close> produces.
\<close>

definition expected_resource :: "string \<times> int \<Rightarrow> json" where
  "expected_resource kv =
     (case kv of (k, i) \<Rightarrow>
        JDict [(''limit'', JInt (if k = ''VCPUS'' then i else i * 1073741824)),
               (''resource_type'', JStr k)])"


section \<open>Account payloads (\<open>calm/dsl/cli/accounts.py\<close>)\<close>

text \<open>
  The \<open>UserAccount\<close> class is built by code outside this file. The payload functions read
  four things from it: the attribute \<open>name\<close> (\<open>None\<close> when the class has none), its
  \<open>__name__\<close>, the result of \<open>UserAccount.get_dict()\<close>, and the result of
  \<open>UserAccount.resources.get_dict()\<close> (\<open>None\<close> when the class has no \<open>resources\<close>). Every
  call of \<open>get_dict()\<close> is taken to build a fresh structure, so the entries one payload
  function changes in place are not shared with another.
\<close>

record account_class =
  attr_name :: "string option"
  dunder_name :: string
  get_dict :: json
  resources_get_dict :: "json option"

text \<open>The argument of the payload functions: \<open>None\<close>, an object that is not an instance
  of \<open>type(Account)\<close>, or an account class.\<close>

datatype pyobj = PyNone | OtherObject | AccountClass account_class

text \<open>What a payload function returns: the payload, or the tuple \<open>(None, err)\<close>.\<close>

datatype returned = Payload json | NoneWithError json

definition err_dict :: "string \<Rightarrow> json" where
  "err_dict msg = JDict [(''error'', JStr msg), (''code'', JInt (- 1))]"

text \<open>
  \<open>str(uuid.uuid4())\<close> draws a random identifier. A run is modelled by the sequence
  \<open>uuid4 :: nat \<Rightarrow> string\<close> of the identifiers it draws and by the number \<open>n\<close> of
  identifiers drawn so far, which every function takes and returns.
\<close>

text \<open>\<open>getattr(UserAccount, "name", "") or getattr(UserAccount, "__name__", "")\<close>\<close>

definition name_or_dunder_name :: "account_class \<Rightarrow> string" where
  "name_or_dunder_name ua =
     (case attr_name ua of
        None \<Rightarrow> dunder_name ua
      | Some nm \<Rightarrow> if nm \<noteq> [] then nm else dunder_name ua)"

text \<open>\<open>obj.copy()\<close>: lists and dictionaries have it.\<close>

fun py_copy :: "json \<Rightarrow> error + json" where
  "py_copy (JList xs) = Inr (JList xs)"
| "py_copy (JDict d) = Inr (JDict d)"
| "py_copy _ = Inl AttributeError"

text \<open>
  A \<open>for\<close> loop whose body changes the current element in place and may draw
  identifiers. Over a list the changed elements replace the old ones. The keys of a
  dictionary and the characters of a string are strings, which no body below can change,
  so such a container is left as it is (and any element makes the body raise).
\<close>

fun for_each_item ::
  "(json \<Rightarrow> nat \<Rightarrow> error + json \<times> nat) \<Rightarrow> json list \<Rightarrow> nat \<Rightarrow> error + json list \<times> nat" where
  "for_each_item body [] n = Inr ([], n)"
| "for_each_item body (x # xs) n =
     and_then (body x n) (\<lambda>(x', n').
     and_then (for_each_item body xs n') (\<lambda>(xs', n'').
       Inr (x' # xs', n'')))"

definition for_loop ::
  "(json \<Rightarrow> nat \<Rightarrow> error + json \<times> nat) \<Rightarrow> json \<Rightarrow> nat \<Rightarrow> error + json \<times> nat" where
  "for_loop body c n =
     (case py_iter c of
        None \<Rightarrow> Inl InterpTypeError
      | Some es \<Rightarrow>
          and_then (for_each_item body es n) (\<lambda>(es', n').
            Inr (case c of JList _ \<Rightarrow> JList es' | _ \<Rightarrow> c, n')))"

definition secret_attrs :: json where
  "secret_attrs = JDict [(''is_secret_modified'', JBool True), (''type'', JStr ''SECRET'')]"

text \<open>\<open>if var["type"] == "SECRET": var["attrs"] = {...}\<close>\<close>

definition mark_secret :: "json \<Rightarrow> error + json" where
  "mark_secret var =
     and_then (py_getitem var ''type'') (\<lambda>t.
       if t = JStr ''SECRET'' then py_setitem var ''attrs'' secret_attrs else Inr var)"

text \<open>\<open>var["uuid"] = str(uuid.uuid4())\<close>\<close>

definition set_uuid :: "(nat \<Rightarrow> string) \<Rightarrow> json \<Rightarrow> nat \<Rightarrow> error + json \<times> nat" where
  "set_uuid uuid4 var n =
     and_then (py_setitem var ''uuid'' (JStr (uuid4 n))) (\<lambda>var'. Inr (var', Suc n))"

text \<open>The loop body of \<open>create_provider_payload\<close>.\<close>

definition auth_schema_body :: "(nat \<Rightarrow> string) \<Rightarrow> json \<Rightarrow> nat \<Rightarrow> error + json \<times> nat" where
  "auth_schema_body uuid4 auth_schema n =
     and_then (py_setitem auth_schema ''value'' (JStr [])) (\<lambda>a.
     and_then (set_uuid uuid4 a n) (\<lambda>(a, n').
     and_then (mark_secret a) (\<lambda>a. Inr (a, n'))))"

text \<open>The loop body over \<open>variable_list\<close> in \<open>create_credential_provider_account_payload\<close>.\<close>

definition variable_body :: "(nat \<Rightarrow> string) \<Rightarrow> json \<Rightarrow> nat \<Rightarrow> error + json \<times> nat" where
  "variable_body uuid4 variable n =
     and_then (set_uuid uuid4 variable n) (\<lambda>(v, n').
     and_then (mark_secret v) (\<lambda>v. Inr (v, n')))"

text \<open>The two loops of \<open>create_resource_type_payload\<close> that mark secrets draw no
  identifier.\<close>

definition mark_secret_body :: "json \<Rightarrow> nat \<Rightarrow> error + json \<times> nat" where
  "mark_secret_body var n = and_then (mark_secret var) (\<lambda>v. Inr (v, n))"

text \<open>\<open>create_account_payload\<close>\<close>

definition create_account_payload ::
  "(nat \<Rightarrow> string) \<Rightarrow> pyobj \<Rightarrow> nat \<Rightarrow> returned \<times> nat" where
  "create_account_payload uuid4 UserAccount n =
     (case UserAccount of
        PyNone \<Rightarrow> (NoneWithError (err_dict ''Given account is empty.''), n)
      | OtherObject \<Rightarrow>
          (NoneWithError (err_dict ''Given account is not of type Account''), n)
      | AccountClass ua \<Rightarrow>
          (let account_name = dunder_name ua;
               spec = JDict [(''name'', JStr account_name), (''resources'', get_dict ua)];
               metadata = JDict [(''kind'', JStr ''account''),
                                 (''name'', JStr account_name),
                                 (''uuid'', JStr (uuid4 n))]
           in (Payload (JDict [(''spec'', spec), (''metadata'', metadata)]), Suc n)))"

text \<open>\<open>create_provider_payload\<close>\<close>

definition create_provider_payload ::
  "(nat \<Rightarrow> string) \<Rightarrow> account_class \<Rightarrow> nat \<Rightarrow> error + json \<times> nat" where
  "create_provider_payload uuid4 ua n =
     (let name = name_or_dunder_name ua;
          metadata = JDict [(''kind'', JStr ''provider''), (''uuid'', JStr (uuid4 n))]
      in
      and_then (py_get_default (get_dict ua) ''data'' (JDict [])) (\<lambda>resources.
      and_then (py_get_default resources ''auth_schema_list'' (JList [])) (\<lambda>asl.
      and_then (py_copy asl) (\<lambda>auth_schema_list.
      and_then (for_loop (auth_schema_body uuid4) auth_schema_list (Suc n))
        (\<lambda>(auth_schema_list, n').
          let provider_resources = JDict [(''auth_schema_list'', auth_schema_list)];
              spec = JDict [(''name'', JStr name), (''resources'', provider_resources)]
          in Inr (JDict [(''spec'', spec), (''metadata'', metadata)], n'))))))"

text \<open>
  \<open>create_resource_type_payload\<close>. The helper \<open>insert_uuid\<close> comes from
  \<open>calm/dsl/cli/utils.py\<close>, which is outside this file; it is the parameter
  \<open>insert_uuid\<close>, which takes the action list and the number of identifiers drawn so far
  and gives the content of \<open>action_list_with_uuid\<close> after the call and the new number,
  or raises.
\<close>

definition create_resource_type_payload ::
  "(nat \<Rightarrow> string) \<Rightarrow> (json \<Rightarrow> nat \<Rightarrow> error + json \<times> nat) \<Rightarrow>
   account_class \<Rightarrow> json \<Rightarrow> nat \<Rightarrow> error + json \<times> nat" where
  "create_resource_type_payload uuid4 insert_uuid ua provider_uuid n =
     (let name = name_or_dunder_name ua;
          metadata = JDict [(''kind'', JStr ''resource_type''),
                            (''name'', JStr name),
                            (''uuid'', JStr (uuid4 n))]
      in
      and_then (py_get_default (get_dict ua) ''data'' (JDict [])) (\<lambda>data.
      and_then (py_get_default data ''resource_config'' (JDict [])) (\<lambda>resources.
      and_then (py_get_default resources ''variables'' (JList [])) (\<lambda>vars.
      and_then (py_copy vars) (\<lambda>input_vars.
      and_then (py_get_default resources ''cred_attrs'' (JList [])) (\<lambda>cred_attrs.
      and_then (py_copy cred_attrs) (\<lambda>output_vars.
      and_then (for_loop mark_secret_body input_vars (Suc n)) (\<lambda>(input_vars, n1).
      and_then (for_loop mark_secret_body output_vars n1) (\<lambda>(output_vars, n2).
      and_then (py_get_default resources ''action_list'' (JList [])) (\<lambda>actions.
      and_then (py_copy actions) (\<lambda>action_list.
      and_then (insert_uuid action_list n2) (\<lambda>(action_list_with_uuid, n3).
      and_then (for_loop (set_uuid uuid4) input_vars n3) (\<lambda>(input_vars, n4).
      and_then (for_loop (set_uuid uuid4) output_vars n4) (\<lambda>(output_vars, n5).
        let provider_reference = JDict [(''kind'', JStr ''provider''),
                                        (''uuid'', provider_uuid)];
            resource_type_resources =
              JDict [(''provider_reference'', provider_reference),
                     (''variable_list'', input_vars),
                     (''schema_list'', output_vars),
                     (''action_list'', action_list_with_uuid)];
            spec = JDict [(''name'', JStr name), (''resources'', resource_type_resources)]
        in Inr (JDict [(''spec'', spec), (''metadata'', metadata)], n5)))))))))))))))"

text \<open>\<open>obj.get(key)\<close> as an expression: \<open>None\<close> for a missing key.\<close>

definition get_or_none :: "json \<Rightarrow> string \<Rightarrow> error + json" where
  "get_or_none obj k = py_get_default obj k JNull"

text \<open>\<open>create_credential_provider_account_payload\<close>\<close>

definition create_credential_provider_account_payload ::
  "(nat \<Rightarrow> string) \<Rightarrow> (json \<Rightarrow> nat \<Rightarrow> error + json \<times> nat) \<Rightarrow>
   pyobj \<Rightarrow> nat \<Rightarrow> error + returned \<times> nat" where
  "create_credential_provider_account_payload uuid4 insert_uuid UserAccount n =
     (case UserAccount of
        PyNone \<Rightarrow> Inr (NoneWithError (err_dict ''Given account is empty.''), n)
      | OtherObject \<Rightarrow>
          Inr (NoneWithError (err_dict ''Given account is not of type Account''), n)
      | AccountClass ua \<Rightarrow>
          and_then (create_provider_payload uuid4 ua n) (\<lambda>(provider_payload, n1).
          and_then (py_get_default provider_payload ''metadata'' (JDict [])) (\<lambda>pmeta.
          and_then (get_or_none pmeta ''uuid'') (\<lambda>provider_uuid.
          and_then (create_resource_type_payload uuid4 insert_uuid ua provider_uuid n1)
            (\<lambda>(resource_type_payload, n2).
          let account_name = name_or_dunder_name ua;
              metadata = JDict [(''kind'', JStr ''account''),
                                (''name'', JStr account_name),
                                (''uuid'', JStr (uuid4 n2))]
          in
          and_then (case resources_get_dict ua of
                      None \<Rightarrow> Inl AttributeError
                    | Some r \<Rightarrow> Inr r) (\<lambda>resources.
          and_then (py_get_default resources ''auth_schema_list'' (JList [])) (\<lambda>vl.
          and_then (for_loop (variable_body uuid4) vl (Suc n2)) (\<lambda>(variable_list, n3).
          and_then (py_get_default resource_type_payload ''spec'' (JDict [])) (\<lambda>rspec.
          and_then (py_get_default rspec ''resources'' (JDict [])) (\<lambda>rres.
          and_then (py_get_default rres ''provider_reference'' (JDict []))
            (\<lambda>provider_reference.
          let account_resources =
                JDict [(''type'', JStr ''custom_provider''),
                       (''data'', JDict [(''provider_reference'', provider_reference),
                                         (''variable_list'', variable_list)])];
              spec = JDict [(''name'', JStr account_name),
                            (''resources'', account_resources)];
              account_payload = JDict [(''spec'', spec), (''metadata'', metadata)]
          in Inr (Payload (JDict [(''provider'', provider_payload),
                                  (''resource_type'', resource_type_payload),
                                  (''account'', account_payload)]), n3))))))))))))"


section \<open>Notions used to state the properties\<close>

text \<open>The entries of the list under a path of keys; no entries when the path leads
  nowhere or to something that is not a list.\<close>

definition entries_at :: "string list \<Rightarrow> json \<Rightarrow> json list" where
  "entries_at ks j = (case path ks j of None \<Rightarrow> [] | Some v \<Rightarrow> entries v)"

text \<open>A compiled entry is marked as the secret convention asks for its declared entry:
  with \<open>attrs\<close> equal to \<open>secret_attrs\<close> when the declared type is \<open>SECRET\<close>, and with the
  \<open>attrs\<close> it was declared with (none, usually) otherwise.\<close>

definition secret_marked :: "json \<Rightarrow> json \<Rightarrow> bool" where
  "secret_marked declared compiled =
     (if field ''type'' declared = Some (JStr ''SECRET'')
      then field ''attrs'' compiled = Some secret_attrs
      else field ''attrs'' compiled = field ''attrs'' declared)"

text \<open>A compiled list is freshly stamped: it is as long as the declared list, and its
  entries carry, in order, consecutive identifiers of the generator.\<close>

definition freshly_stamped :: "(nat \<Rightarrow> string) \<Rightarrow> json list \<Rightarrow> json list \<Rightarrow> bool" where
  "freshly_stamped uuid4 declared compiled \<longleftrightarrow>
     length compiled = length declared
     \<and> (\<exists>s. \<forall>i < length compiled.
            field ''uuid'' (compiled ! i) = Some (JStr (uuid4 (s + i))))"

text \<open>The four lists of a credential-provider bundle whose entries are stamped and
  marked, each with the declared list it comes from: the provider's auth-schema list,
  the input and output variables of the resource type, and the variable list of the
  account.\<close>

definition stamped_lists :: "account_class \<Rightarrow> json \<Rightarrow> (json list \<times> json list) list" where
  "stamped_lists ua bundle =
     [(entries_at [''data'', ''auth_schema_list''] (get_dict ua),
       entries_at [''provider'', ''spec'', ''resources'', ''auth_schema_list''] bundle),
      (entries_at [''data'', ''resource_config'', ''variables''] (get_dict ua),
       entries_at [''resource_type'', ''spec'', ''resources'', ''variable_list''] bundle),
      (entries_at [''data'', ''resource_config'', ''cred_attrs''] (get_dict ua),
       entries_at [''resource_type'', ''spec'', ''resources'', ''schema_list''] bundle),
      (case resources_get_dict ua of
         None \<Rightarrow> []
       | Some r \<Rightarrow> entries_at [''auth_schema_list''] r,
       entries_at [''account'', ''spec'', ''resources'', ''data'', ''variable_list''] bundle)]"

text \<open>An entry the loops accept: a dictionary with a \<open>type\<close> key.\<close>

fun typed_entry :: "json \<Rightarrow> bool" where
  "typed_entry (JDict d) = (map_of d ''type'' \<noteq> None)"
| "typed_entry _ = False"

text \<open>
  A sample run, for concrete instances of the properties: a generator whose \<open>n\<close>-th
  identifier is \<open>id-\<close> followed by \<open>n\<close> letters, an \<open>insert_uuid\<close> that leaves the (empty)
  action list as it is, and a credential-provider account with a secret and a plain
  auth-schema entry, the secret one declared with an identifier of its own.
\<close>

definition sample_uuid4 :: "nat \<Rightarrow> string" where
  "sample_uuid4 n = ''id-'' @ replicate n (CHR ''i'')"

definition sample_insert_uuid :: "json \<Rightarrow> nat \<Rightarrow> error + json \<times> nat" where
  "sample_insert_uuid action_list n = Inr (action_list, n)"

definition sample_auth_schema_list :: json where
  "sample_auth_schema_list =
     JList [JDict [(''name'', JStr ''token''), (''type'', JStr ''SECRET''),
                   (''value'', JStr ''s3cr3t''), (''uuid'', JStr ''declared-id'')],
            JDict [(''name'', JStr ''url''), (''type'', JStr ''LOCAL''),
                   (''value'', JStr ''https://vault'')]]"

definition sample_account :: account_class where
  "sample_account =
     \<lparr>attr_name = Some ''vault'',
      dunder_name = ''VaultAccount'',
      get_dict =
        JDict [(''type'', JStr ''custom_provider''),
               (''data'', JDict
                  [(''auth_schema_list'', sample_auth_schema_list),
                   (''resource_config'', JDict
                      [(''variables'',
                          JList [JDict [(''name'', JStr ''path''), (''type'', JStr ''LOCAL'')]]),
                       (''cred_attrs'',
                          JList [JDict [(''name'', JStr ''password''),
                                        (''type'', JStr ''SECRET'')]]),
                       (''action_list'', JList [])])])],
      resources_get_dict = Some (JDict [(''auth_schema_list'', sample_auth_schema_list)])\<rparr>"

text \<open>The bundle that the sample run returns (lemma \<open>sample_run\<close> below).\<close>

definition sample_bundle :: json where
  "sample_bundle =
     JDict
       [(''provider'', JDict
          [(''spec'', JDict
             [(''name'', JStr ''vault''),
              (''resources'', JDict
                 [(''auth_schema_list'', JList
                     [JDict [(''name'', JStr ''token''), (''type'', JStr ''SECRET''),
                             (''value'', JStr []), (''uuid'', JStr ''id-i''),
                             (''attrs'', secret_attrs)],
                      JDict [(''name'', JStr ''url''), (''type'', JStr ''LOCAL''),
                             (''value'', JStr []), (''uuid'', JStr ''id-ii'')]])])]),
           (''metadata'', JDict
              [(''kind'', JStr ''provider''), (''uuid'', JStr ''id-'')])]),
        (''resource_type'', JDict
          [(''spec'', JDict
             [(''name'', JStr ''vault''),
              (''resources'', JDict
                 [(''provider_reference'', JDict
                     [(''kind'', JStr ''provider''), (''uuid'', JStr ''id-'')]),
                  (''variable_list'', JList
                     [JDict [(''name'', JStr ''path''), (''type'', JStr ''LOCAL''),
                             (''uuid'', JStr ''id-iiii'')]]),
                  (''schema_list'', JList
                     [JDict [(''name'', JStr ''password''), (''type'', JStr ''SECRET''),
                             (''attrs'', secret_attrs), (''uuid'', JStr ''id-iiiii'')]]),
                  (''action_list'', JList [])])]),
           (''metadata'', JDict
              [(''kind'', JStr ''resource_type''), (''name'', JStr ''vault''),
               (''uuid'', JStr ''id-iii'')])]),
        (''account'', JDict
          [(''spec'', JDict
             [(''name'', JStr ''vault''),
              (''resources'', JDict
                 [(''type'', JStr ''custom_provider''),
                  (''data'', JDict
                     [(''provider_reference'', JDict
                         [(''kind'', JStr ''provider''), (''uuid'', JStr ''id-'')]),
                      (''variable_list'', JList
                         [JDict [(''name'', JStr ''token''), (''type'', JStr ''SECRET''),
                                 (''value'', JStr ''s3cr3t''),
                                 (''uuid'', JStr ''id-iiiiiii''),
                                 (''attrs'', secret_attrs)],
                          JDict [(''name'', JStr ''url''), (''type'', JStr ''LOCAL''),
                                 (''value'', JStr ''https://vault''),
                                 (''uuid'', JStr ''id-iiiiiiii'')]])])])]),
           (''metadata'', JDict
              [(''kind'', JStr ''account''), (''name'', JStr ''vault''),
               (''uuid'', JStr ''id-iiiiii'')])])]"


section \<open>Sequencing lemmas\<close>

lemma and_then_Inr_iff:
  "and_then m f = Inr y \<longleftrightarrow> (\<exists>x. m = Inr x \<and> f x = Inr y)"
  by (cases m) (simp_all add: and_then_def)

lemma and_then_Inr [simp]: "and_then (Inr x) f = f x"
  by (simp add: and_then_def)

lemma and_then_Inl [simp]: "and_then (Inl e) f = Inl e"
  by (simp add: and_then_def)


section \<open>Provider-spec validation: properties\<close>

lemma py_get_default_field:
  "field k obj = Some v \<Longrightarrow> py_get_default obj k dflt = Inr v"
  by (cases obj) (simp_all add: py_get_default_def)

text \<open>
  Claim C4. The spec kind declared by the blob is resolved through \<open>spec_provider_map\<close>
  and compared with the provider type of the substrate. For every row \<open>kind \<mapsto> t\<close> of the
  table and every blob that declares \<open>kind\<close>: on a substrate of provider type \<open>t\<close> the
  check passes and the result is that of the provider's own validator, which is the spec
  itself when that validator accepts it; on a substrate of any other provider type a
  \<open>TypeError\<close> is raised whose message carries the substrate type, the spec type \<open>t\<close> and
  the name of the substrate class. The row of \<open>PROVISION_AHV_VM\<close> is \<open>AHV_VM\<close>, so that
  kind passes on \<open>AHV_VM\<close> and raises the mismatch error on \<open>AWS_VM\<close>.
\<close>

theorem provider_spec_type_check:
  assumes kind: "field ''type'' spec = Some (JStr kind)"
    and row: "(kind, t) \<in> set spec_provider_map"
  shows "(provider_type cls = t \<longrightarrow>
            ProviderSpec_get validate_spec spec cls
              = ProviderSpec_validate validate_spec spec t)
       \<and> (provider_type cls = t \<and> validate_spec t spec = None \<longrightarrow>
            ProviderSpec_get validate_spec spec cls = Inr spec)
       \<and> (provider_type cls \<noteq> t \<longrightarrow>
            ProviderSpec_get validate_spec spec cls
              = Inl (TypeError (mismatch_message (provider_type cls) t (cls_name cls))))
       \<and> (kind = ''PROVISION_AHV_VM'' \<longrightarrow> t = ''AHV_VM'')"
proof -
  have "distinct (map fst spec_provider_map)"
    by (simp add: spec_provider_map_def)
  then have look: "map_of spec_provider_map kind = Some t"
    using row by (rule map_of_is_SomeI)
  then have item: "spec_provider_map_getitem (JStr kind) = Inr t"
    by simp
  have ahv: "kind = ''PROVISION_AHV_VM'' \<longrightarrow> t = ''AHV_VM''"
    using look by (auto simp add: spec_provider_map_def)
  from kind have "py_get_default spec ''type'' (JStr ''PROVISION_AHV_VM'') = Inr (JStr kind)"
    by (rule py_get_default_field)
  with item ahv show ?thesis
    by (simp add: ProviderSpec_get_def ProviderSpec_validate_def
        del: spec_provider_map_getitem.simps)
qed

theorem provider_spec_type_check_witness:
  "ProviderSpec_get (\<lambda>t s. None) (JDict [(''type'', JStr ''PROVISION_AHV_VM'')])
        \<lparr>provider_type = ''AHV_VM'', cls_name = ''MySubstrate''\<rparr>
      = Inr (JDict [(''type'', JStr ''PROVISION_AHV_VM'')])
   \<and> ProviderSpec_get (\<lambda>t s. None) (JDict [(''type'', JStr ''PROVISION_AHV_VM'')])
        \<lparr>provider_type = ''AWS_VM'', cls_name = ''MySubstrate''\<rparr>
      = Inl (TypeError
          ''provider type mismatch in substrate(AWS_VM) and spec type(AHV_VM) at MySubstrate substrate!!!'')
   \<and> ProviderSpec_get (\<lambda>t s. None) (JDict [(''type'', JStr ''PROVISION_AWS_VM'')])
        \<lparr>provider_type = ''AWS_VM'', cls_name = ''MySubstrate''\<rparr>
      = Inr (JDict [(''type'', JStr ''PROVISION_AWS_VM'')])
   \<and> ProviderSpec_get (\<lambda>t s. None) (JDict [(''type'', JStr ''PROVISION_AWS_VM'')])
        \<lparr>provider_type = ''AHV_VM'', cls_name = ''MySubstrate''\<rparr>
      = Inl (TypeError
          ''provider type mismatch in substrate(AHV_VM) and spec type(AWS_VM) at MySubstrate substrate!!!'')"
proof -
  let ?ahv = "JDict [(''type'', JStr ''PROVISION_AHV_VM'')]"
  let ?aws = "JDict [(''type'', JStr ''PROVISION_AWS_VM'')]"
  have k1: "field ''type'' ?ahv = Some (JStr ''PROVISION_AHV_VM'')" by simp
  have r1: "(''PROVISION_AHV_VM'', ''AHV_VM'') \<in> set spec_provider_map"
    by (simp add: spec_provider_map_def)
  have k2: "field ''type'' ?aws = Some (JStr ''PROVISION_AWS_VM'')" by simp
  have r2: "(''PROVISION_AWS_VM'', ''AWS_VM'') \<in> set spec_provider_map"
    by (simp add: spec_provider_map_def)
  from provider_spec_type_check [OF k1 r1,
      of "\<lparr>provider_type = ''AHV_VM'', cls_name = ''MySubstrate''\<rparr>" "\<lambda>t s. None"]
    provider_spec_type_check [OF k1 r1,
      of "\<lparr>provider_type = ''AWS_VM'', cls_name = ''MySubstrate''\<rparr>" "\<lambda>t s. None"]
    provider_spec_type_check [OF k2 r2,
      of "\<lparr>provider_type = ''AWS_VM'', cls_name = ''MySubstrate''\<rparr>" "\<lambda>t s. None"]
    provider_spec_type_check [OF k2 r2,
      of "\<lparr>provider_type = ''AHV_VM'', cls_name = ''MySubstrate''\<rparr>" "\<lambda>t s. None"]
  show ?thesis
    by (simp add: mismatch_message_def ProviderSpec_validate_def)
qed

text \<open>
  Claim C8. A blob without a \<open>type\<close> key is treated as kind \<open>PROVISION_AHV_VM\<close>: on a
  substrate of provider type \<open>AHV_VM\<close> the check passes (the result is that of the
  provider's own validator), on every other provider type the mismatch \<open>TypeError\<close> is
  raised; so, when the provider's validator accepts the spec, validation returns the
  spec exactly when the provider type is \<open>AHV_VM\<close>.
\<close>

theorem provider_spec_default_kind:
  assumes "spec = JDict d" and "map_of d ''type'' = None"
  shows "(provider_type cls = ''AHV_VM'' \<longrightarrow>
            ProviderSpec_get validate_spec spec cls
              = ProviderSpec_validate validate_spec spec ''AHV_VM'')
       \<and> (provider_type cls \<noteq> ''AHV_VM'' \<longrightarrow>
            ProviderSpec_get validate_spec spec cls
              = Inl (TypeError
                  (mismatch_message (provider_type cls) ''AHV_VM'' (cls_name cls))))
       \<and> (validate_spec ''AHV_VM'' spec = None \<longrightarrow>
            (ProviderSpec_get validate_spec spec cls = Inr spec
               \<longleftrightarrow> provider_type cls = ''AHV_VM''))"
  using assms
  by (auto simp add: ProviderSpec_get_def py_get_default_def spec_provider_map_def
      ProviderSpec_validate_def)

theorem provider_spec_default_kind_witness:
  "map_of [(''name'', JStr ''vm1'')] ''type'' = None
   \<and> ProviderSpec_get (\<lambda>t s. None) (JDict [(''name'', JStr ''vm1'')])
        \<lparr>provider_type = ''AHV_VM'', cls_name = ''S''\<rparr>
      = Inr (JDict [(''name'', JStr ''vm1'')])
   \<and> ProviderSpec_get (\<lambda>t s. None) (JDict [(''name'', JStr ''vm1'')])
        \<lparr>provider_type = ''GCP_VM'', cls_name = ''S''\<rparr>
      = Inl (TypeError
          ''provider type mismatch in substrate(GCP_VM) and spec type(AHV_VM) at S substrate!!!'')"
  using provider_spec_default_kind [of "JDict [(''name'', JStr ''vm1'')]"
      "[(''name'', JStr ''vm1'')]"
      "\<lparr>provider_type = ''AHV_VM'', cls_name = ''S''\<rparr>" "\<lambda>t s. None"]
    provider_spec_default_kind [of "JDict [(''name'', JStr ''vm1'')]"
      "[(''name'', JStr ''vm1'')]"
      "\<lparr>provider_type = ''GCP_VM'', cls_name = ''S''\<rparr>" "\<lambda>t s. None"]
  by (simp add: mismatch_message_def ProviderSpec_validate_def)

text \<open>
  Claim C9. A blob whose \<open>type\<close> value is none of the six keys of \<open>spec_provider_map\<close>
  fails in the lookup \<open>spec_provider_map[spec_type]\<close> itself: with a \<open>KeyError\<close> for
  the value (for a list or a dictionary, which cannot be hashed, with the interpreter's
  \<open>TypeError\<close>). The error is never the mismatch \<open>TypeError\<close> that the source raises,
  and it is the same for every substrate: the provider type is not looked at.
\<close>

theorem provider_spec_unknown_kind:
  assumes "field ''type'' spec = Some v"
    and "\<forall>k \<in> set (map fst spec_provider_map). v \<noteq> JStr k"
  shows "ProviderSpec_get validate_spec spec cls
           = Inl (case v of JList xs \<Rightarrow> InterpTypeError
                          | JDict d \<Rightarrow> InterpTypeError
                          | _ \<Rightarrow> KeyError v)
       \<and> (\<forall>msg. ProviderSpec_get validate_spec spec cls \<noteq> Inl (TypeError msg))"
proof -
  have "spec_provider_map_getitem v
          = Inl (case v of JList xs \<Rightarrow> InterpTypeError
                         | JDict d \<Rightarrow> InterpTypeError
                         | _ \<Rightarrow> KeyError v)"
  proof (cases v)
    case (JStr s)
    with assms(2) have "s \<notin> fst ` set spec_provider_map" by auto
    then have "map_of spec_provider_map s = None" by (simp add: map_of_eq_None_iff)
    with JStr show ?thesis by simp
  qed simp_all
  with assms(1) show ?thesis
    by (auto simp add: ProviderSpec_get_def py_get_default_field split: json.splits)
qed

theorem provider_spec_unknown_kind_witness:
  "field ''type'' (JDict [(''type'', JStr ''PROVISION_K8S_POD'')])
     = Some (JStr ''PROVISION_K8S_POD'')
   \<and> ProviderSpec_get (\<lambda>t s. None) (JDict [(''type'', JStr ''PROVISION_K8S_POD'')])
        \<lparr>provider_type = ''AHV_VM'', cls_name = ''S''\<rparr>
      = Inl (KeyError (JStr ''PROVISION_K8S_POD''))"
proof -
  have h1: "field ''type'' (JDict [(''type'', JStr ''PROVISION_K8S_POD'')])
              = Some (JStr ''PROVISION_K8S_POD'')"
    by simp
  have h2: "\<forall>k \<in> set (map fst spec_provider_map). JStr ''PROVISION_K8S_POD'' \<noteq> JStr k"
    by (simp add: spec_provider_map_def)
  from provider_spec_unknown_kind [OF h1 h2] h1 show ?thesis by simp
qed


section \<open>Project compilation: properties\<close>

text \<open>The provider loop writes four keys of \<open>cdict\<close> and no other.\<close>

lemma ensure_list_other: "k' \<noteq> k \<Longrightarrow> map_of (ensure_list k c) k' = map_of c k'"
  by (simp add: ensure_list_def update_conv')

lemma extend_at_other:
  "extend_at k src c = Inr c' \<Longrightarrow> k' \<noteq> k \<Longrightarrow> map_of c' k' = map_of c k'"
  by (auto simp add: extend_at_def update_conv' split: option.splits json.splits)

lemma nutanix_pc_step_other:
  assumes "nutanix_pc_step p c = Inr c'"
    and "k \<noteq> ''subnet_reference_list''" and "k \<noteq> ''external_network_list''"
    and "k \<noteq> ''default_subnet_reference''"
  shows "map_of c' k = map_of c k"
  using assms
  by (auto simp add: nutanix_pc_step_def and_then_Inr_iff update_conv'
      ensure_list_other dest!: extend_at_other [where k' = k] split: option.splits)

lemma provider_step_other:
  assumes "provider_step p c = Inr c'"
    and "k \<noteq> ''subnet_reference_list''" and "k \<noteq> ''external_network_list''"
    and "k \<noteq> ''default_subnet_reference''" and "k \<noteq> ''account_reference_list''"
  shows "map_of c' k = map_of c k"
proof (cases p)
  case (JDict d)
  with assms(1) obtain c1 where
    c1: "c1 = c \<or> nutanix_pc_step d c = Inr c1"
    and ext: "\<exists>ref. extend_at ''account_reference_list'' (JList [ref]) c1 = Inr c'"
    by (auto simp add: and_then_Inr_iff split: if_splits)
  from c1 assms have "map_of c1 k = map_of c k"
    by (auto dest: nutanix_pc_step_other)
  moreover from ext assms(5) have "map_of c' k = map_of c1 k"
    by (auto dest: extend_at_other)
  ultimately show ?thesis by simp
qed (use assms(1) in simp_all)

lemma provider_loop_other:
  assumes "provider_loop ps c = Inr c'"
    and "k \<noteq> ''subnet_reference_list''" and "k \<noteq> ''external_network_list''"
    and "k \<noteq> ''default_subnet_reference''" and "k \<noteq> ''account_reference_list''"
  shows "map_of c' k = map_of c k"
  using assms
proof (induction ps arbitrary: c)
  case Nil
  then show ?case by simp
next
  case (Cons p ps)
  from Cons.prems(1) obtain c1 where s: "provider_step p c = Inr c1"
    and l: "provider_loop ps c1 = Inr c'"
    by (auto simp add: and_then_Inr_iff)
  from Cons.IH [OF l Cons.prems(2-5)] provider_step_other [OF s Cons.prems(2-5)]
  show ?case by simp
qed

lemma compile_providers_other:
  assumes "compile_providers c = Inr c'"
    and "k \<noteq> ''subnet_reference_list''" and "k \<noteq> ''external_network_list''"
    and "k \<noteq> ''default_subnet_reference''" and "k \<noteq> ''account_reference_list''"
    and "k \<noteq> ''provider_list''"
  shows "map_of c' k = map_of c k"
proof -
  from assms(1) obtain ps where
    "provider_loop ps (AList.delete ''provider_list''
        (AList.update ''account_reference_list'' (JList []) c)) = Inr c'"
    by (auto simp add: compile_providers_def Let_def split: option.splits)
  from provider_loop_other [OF this assms(2-5)] assms(5,6) show ?thesis
    by (simp add: delete_conv' update_conv')
qed

text \<open>Without a provider list the provider loop has nothing to do and cannot raise.\<close>

lemma compile_providers_no_provider_list:
  "map_of cdict ''provider_list'' = None \<Longrightarrow>
     compile_providers cdict
       = Inr (AList.delete ''provider_list''
                (AList.update ''account_reference_list'' (JList []) cdict))"
  by (simp add: compile_providers_def update_conv')

text \<open>The quota loop over integer values never raises and gives the expected entries,
  one for each item and in the order of the items.\<close>

lemma quota_loop_ints:
  "quota_loop (map (\<lambda>(k, i). (k, JInt i)) q) = Inr (map expected_resource q)"
  by (induction q) (auto simp add: quota_resource_def expected_resource_def)

lemma compile_quotas_ints:
  assumes "map_of c ''quotas'' = Some (JDict (map (\<lambda>(k, i). (k, JInt i)) q))" and "q \<noteq> []"
  shows "compile_quotas c
           = Inr (AList.update ''resource_domain''
                    (JDict [(''resources'', JList (map expected_resource q))])
                    (AList.delete ''quotas'' c))"
  using assms by (simp add: compile_quotas_def quota_loop_ints)

text \<open>
  Claim C1, as stated, fails for a declared quotas mapping that is empty: \<open>if quotas:\<close>
  is false for \<open>{}\<close>, so the field is removed and no \<open>resource_domain\<close> is produced.
\<close>

theorem project_empty_quotas_counterexample:
  "map_of [(''quotas'', JDict [])] ''quotas'' = Some (JDict [])
   \<and> compile [(''quotas'', JDict [])] = Inr [(''account_reference_list'', JList [])]
   \<and> path [''resource_domain'', ''resources'']
        (JDict [(''account_reference_list'', JList [])]) = None"
  by (simp add: compile_def compile_providers_def compile_quotas_def)

text \<open>
  Claim C1, amended. For every project whose declared quotas mapping is not empty (with
  integer values) and whose provider loop does not raise, \<open>compile\<close> returns a dictionary
  without the \<open>quotas\<close> field in which \<open>resource_domain.resources\<close> has exactly one entry
  for each quota item, in order: the limit is the declared value times 1,073,741,824
  for every key but \<open>VCPUS\<close>, and the declared value itself for \<open>VCPUS\<close>.
\<close>

theorem project_quotas_scaled:
  assumes "map_of cdict ''quotas'' = Some (JDict (map (\<lambda>(k, i). (k, JInt i)) q))"
    and "q \<noteq> []"
    and "compile_providers cdict = Inr cdict'"
  shows "\<exists>out. compile cdict = Inr out
           \<and> map_of out ''quotas'' = None
           \<and> path [''resource_domain'', ''resources''] (JDict out)
               = Some (JList (map expected_resource q))"
proof -
  from compile_providers_other [OF assms(3), of "''quotas''"] assms(1)
  have "map_of cdict' ''quotas'' = Some (JDict (map (\<lambda>(k, i). (k, JInt i)) q))"
    by simp
  from compile_quotas_ints [OF this assms(2)] assms(3) show ?thesis
    by (simp add: compile_def delete_conv' update_conv')
qed

theorem project_quotas_scaled_witness:
  "\<exists>out. compile
       [(''provider_list'', JList [JDict [(''provider_type'', JStr ''nutanix_pc''),
           (''account_reference'', JDict [(''kind'', JStr ''account''), (''uuid'', JStr ''a1'')]),
           (''subnet_reference_list'', JList [JStr ''A'', JStr ''B''])]]),
        (''quotas'', JDict [(''STORAGE'', JInt 5), (''VCPUS'', JInt 2)]),
        (''environment_definition_list'', JList [])] = Inr out
     \<and> map_of out ''quotas'' = None
     \<and> path [''resource_domain'', ''resources''] (JDict out)
         = Some (JList
             [JDict [(''limit'', JInt 5368709120), (''resource_type'', JStr ''STORAGE'')],
              JDict [(''limit'', JInt 2), (''resource_type'', JStr ''VCPUS'')]])"
proof -
  let ?cdict = "[(''provider_list'', JList [JDict [(''provider_type'', JStr ''nutanix_pc''),
           (''account_reference'', JDict [(''kind'', JStr ''account''), (''uuid'', JStr ''a1'')]),
           (''subnet_reference_list'', JList [JStr ''A'', JStr ''B''])]]),
        (''quotas'', JDict [(''STORAGE'', JInt 5), (''VCPUS'', JInt 2)]),
        (''environment_definition_list'', JList [])]"
  let ?q = "[(''STORAGE'', 5), (''VCPUS'', 2 :: int)]"
  have h1: "map_of ?cdict ''quotas'' = Some (JDict (map (\<lambda>(k, i). (k, JInt i)) ?q))"
    by simp
  have h2: "?q \<noteq> []" by simp
  have h3: "compile_providers ?cdict
              = Inr [(''quotas'', JDict [(''STORAGE'', JInt 5), (''VCPUS'', JInt 2)]),
                     (''environment_definition_list'', JList []),
                     (''account_reference_list'',
                        JList [JDict [(''kind'', JStr ''account''), (''uuid'', JStr ''a1'')]]),
                     (''subnet_reference_list'', JList [JStr ''A'', JStr ''B''])]"
    by (simp add: compile_providers_def nutanix_pc_step_def extend_at_def ensure_list_def)
  from project_quotas_scaled [OF h1 h2 h3] show ?thesis
    by (simp add: expected_resource_def)
qed

text \<open>
  Claim C5 at a provider of type \<open>nutanix_pc\<close> that declares both lists. The external
  network list is read in the \<open>elif\<close> branch of the test for the subnet list, so here
  only the subnets reach the output: \<open>subnet_reference_list\<close> is \<open>[A]\<close> and the output has
  no \<open>external_network_list\<close> at all, although the provider declares \<open>[N]\<close>.
\<close>

theorem project_both_lists_external_networks_lost:
  "compile
     [(''provider_list'', JList [JDict [(''provider_type'', JStr ''nutanix_pc''),
         (''account_reference'', JStr ''acc''),
         (''subnet_reference_list'', JList [JStr ''A'']),
         (''external_network_list'', JList [JStr ''N''])]])]
   = Inr [(''account_reference_list'', JList [JStr ''acc'']),
          (''subnet_reference_list'', JList [JStr ''A''])]"
  by (simp add: compile_def compile_providers_def compile_quotas_def nutanix_pc_step_def
      extend_at_def ensure_list_def)

text \<open>A provider that declares only one of the two lists does contribute it.\<close>

lemma project_only_external_networks:
  "compile
     [(''provider_list'', JList [JDict [(''provider_type'', JStr ''nutanix_pc''),
         (''account_reference'', JStr ''acc''),
         (''external_network_list'', JList [JStr ''N''])]])]
   = Inr [(''account_reference_list'', JList [JStr ''acc'']),
          (''external_network_list'', JList [JStr ''N''])]"
  by (simp add: compile_def compile_providers_def compile_quotas_def nutanix_pc_step_def
      extend_at_def ensure_list_def)


section \<open>Account payloads: properties\<close>

subsection \<open>Reading the declared lists\<close>

lemma py_copy_Inr: "py_copy v = Inr v' \<Longrightarrow> v' = v"
  by (cases v) simp_all

lemma py_get_default_Inr:
  assumes "py_get_default obj k dflt = Inr v"
  obtains d where "obj = JDict d"
    and "v = (case map_of d k of None \<Rightarrow> dflt | Some x \<Rightarrow> x)"
  using assms by (cases obj) (auto simp add: py_get_default_def split: option.splits)

lemma entries_at_Nil [simp]: "entries_at [] j = entries j"
  by (simp add: entries_at_def)

lemma entries_at_empty_dict [simp]: "entries_at ks (JDict []) = []"
  by (cases ks) (simp_all add: entries_at_def)

lemma entries_at_Cons_JDict:
  "entries_at (k # ks) (JDict d)
     = (case map_of d k of None \<Rightarrow> [] | Some v \<Rightarrow> entries_at ks v)"
  by (simp add: entries_at_def split: option.splits)

lemma entries_at_get_default:
  assumes "py_get_default obj k dflt = Inr v" and "entries_at ks dflt = []"
  shows "entries_at (k # ks) obj = entries_at ks v"
  using assms(1)
proof (rule py_get_default_Inr)
  fix d
  assume "obj = JDict d" and "v = (case map_of d k of None \<Rightarrow> dflt | Some x \<Rightarrow> x)"
  with assms(2) show ?thesis
    by (simp add: entries_at_Cons_JDict split: option.splits)
qed

subsection \<open>Loops\<close>

lemma for_each_item_rel:
  assumes body: "\<And>x n x' n'. body x n = Inr (x', n') \<Longrightarrow> R x x'"
  shows "for_each_item body xs n = Inr (ys, n') \<Longrightarrow> list_all2 R xs ys"
proof (induction xs arbitrary: n ys)
  case Nil
  then show ?case by simp
next
  case (Cons x xs)
  from Cons.prems obtain x' n1 xs' where
    "body x n = Inr (x', n1)" "for_each_item body xs n1 = Inr (xs', n')" "ys = x' # xs'"
    by (auto simp add: and_then_Inr_iff)
  with Cons.IH body show ?case by auto
qed

lemma for_loop_rel:
  assumes body: "\<And>x n x' n'. body x n = Inr (x', n') \<Longrightarrow> R x x'"
    and run: "for_loop body c n = Inr (c', n')"
  shows "list_all2 R (entries c) (entries c')"
proof (cases c)
  case (JList xs)
  with run obtain ys where "for_each_item body xs n = Inr (ys, n')" "c' = JList ys"
    by (auto simp add: for_loop_def and_then_Inr_iff)
  with JList for_each_item_rel [of body R, OF body] show ?thesis by auto
qed (use run in \<open>auto simp add: for_loop_def and_then_Inr_iff split: option.splits\<close>)

lemma for_each_item_stamped:
  assumes body: "\<And>x n x' n'. body x n = Inr (x', n') \<Longrightarrow>
                   n' = Suc n \<and> field ''uuid'' x' = Some (JStr (uuid4 n))"
  shows "for_each_item body xs n = Inr (ys, n') \<Longrightarrow>
           n' = n + length xs \<and> length ys = length xs
           \<and> (\<forall>i < length ys. field ''uuid'' (ys ! i) = Some (JStr (uuid4 (n + i))))"
proof (induction xs arbitrary: n ys)
  case Nil
  then show ?case by simp
next
  case (Cons x xs)
  from Cons.prems obtain x' n1 xs' where
    step: "body x n = Inr (x', n1)" and rest: "for_each_item body xs n1 = Inr (xs', n')"
    and ys: "ys = x' # xs'"
    by (auto simp add: and_then_Inr_iff)
  from body [OF step] have n1: "n1 = Suc n"
    and x': "field ''uuid'' x' = Some (JStr (uuid4 n))" by simp_all
  from Cons.IH [OF rest] n1 have
    IH: "n' = Suc n + length xs" "length xs' = length xs"
      "\<forall>i < length xs'. field ''uuid'' (xs' ! i) = Some (JStr (uuid4 (Suc n + i)))"
    by simp_all
  have "field ''uuid'' (ys ! i) = Some (JStr (uuid4 (n + i)))" if "i < length ys" for i
  proof (cases i)
    case 0
    with ys x' show ?thesis by simp
  next
    case (Suc j)
    with that ys IH(3) show ?thesis by simp
  qed
  with IH(1,2) ys show ?case by simp
qed

lemma for_loop_stamped:
  assumes body: "\<And>x n x' n'. body x n = Inr (x', n') \<Longrightarrow>
                   n' = Suc n \<and> field ''uuid'' x' = Some (JStr (uuid4 n))"
    and run: "for_loop body c n = Inr (c', n')"
  shows "length (entries c') = length (entries c)
         \<and> (\<forall>i < length (entries c').
               field ''uuid'' (entries c' ! i) = Some (JStr (uuid4 (n + i))))"
proof (cases c)
  case (JList xs)
  with run obtain ys where "for_each_item body xs n = Inr (ys, n')" "c' = JList ys"
    by (auto simp add: for_loop_def and_then_Inr_iff)
  with JList for_each_item_stamped [of body uuid4, OF body] show ?thesis by auto
qed (use run in \<open>auto simp add: for_loop_def and_then_Inr_iff split: option.splits\<close>)

subsection \<open>Loop bodies\<close>

lemma py_setitem_Inr:
  assumes "py_setitem v k x = Inr v'"
  shows "field k v' = Some x" and "k' \<noteq> k \<Longrightarrow> field k' v' = field k' v"
  using assms by (cases v; auto simp add: update_conv')+

lemma set_uuid_Inr:
  assumes "set_uuid uuid4 v n = Inr (v', n')"
  shows "n' = Suc n" and "field ''uuid'' v' = Some (JStr (uuid4 n))"
    and "k \<noteq> ''uuid'' \<Longrightarrow> field k v' = field k v"
  using assms by (auto simp add: set_uuid_def and_then_Inr_iff dest: py_setitem_Inr)

lemma py_getitem_Inr: "py_getitem v k = Inr x \<Longrightarrow> field k v = Some x"
  by (cases v) (auto split: option.splits)

lemma mark_secret_Inr:
  assumes "mark_secret v = Inr v'"
  shows "secret_marked v v'" and "k \<noteq> ''attrs'' \<Longrightarrow> field k v' = field k v"
  using assms
  by (auto simp add: mark_secret_def and_then_Inr_iff secret_marked_def
      dest!: py_getitem_Inr dest: py_setitem_Inr split: if_splits)

lemma secret_marked_to:
  assumes "secret_marked a b" and "field ''attrs'' c = field ''attrs'' b"
  shows "secret_marked a c"
  using assms by (simp add: secret_marked_def)

lemma mark_secret_body_Inr:
  "mark_secret_body v n = Inr (v', n') \<Longrightarrow> secret_marked v v'"
  by (auto simp add: mark_secret_body_def and_then_Inr_iff dest: mark_secret_Inr)

lemma variable_body_Inr:
  assumes "variable_body uuid4 v n = Inr (v', n')"
  shows "n' = Suc n" and "field ''uuid'' v' = Some (JStr (uuid4 n))"
    and "secret_marked v v'"
proof -
  from assms obtain v1 where s: "set_uuid uuid4 v n = Inr (v1, n')"
    and m: "mark_secret v1 = Inr v'"
    by (auto simp add: variable_body_def and_then_Inr_iff)
  from set_uuid_Inr(1) [OF s] show "n' = Suc n" .
  from mark_secret_Inr(2) [OF m, of "''uuid''"] set_uuid_Inr(2) [OF s]
  show "field ''uuid'' v' = Some (JStr (uuid4 n))" by simp
  from set_uuid_Inr(3) [OF s, of "''type''"] set_uuid_Inr(3) [OF s, of "''attrs''"]
    mark_secret_Inr(1) [OF m]
  show "secret_marked v v'" by (simp add: secret_marked_def)
qed

lemma auth_schema_body_Inr:
  assumes "auth_schema_body uuid4 a n = Inr (a', n')"
  shows "n' = Suc n" and "field ''uuid'' a' = Some (JStr (uuid4 n))"
    and "secret_marked a a'" and "field ''value'' a' = Some (JStr [])"
proof -
  from assms obtain a1 a2 where v: "py_setitem a ''value'' (JStr []) = Inr a1"
    and s: "set_uuid uuid4 a1 n = Inr (a2, n')"
    and m: "mark_secret a2 = Inr a'"
    by (auto simp add: auth_schema_body_def and_then_Inr_iff)
  from set_uuid_Inr(1) [OF s] show "n' = Suc n" .
  from mark_secret_Inr(2) [OF m, of "''uuid''"] set_uuid_Inr(2) [OF s]
  show "field ''uuid'' a' = Some (JStr (uuid4 n))" by simp
  from mark_secret_Inr(2) [OF m, of "''value''"] set_uuid_Inr(3) [OF s, of "''value''"]
    py_setitem_Inr(1) [OF v]
  show "field ''value'' a' = Some (JStr [])" by simp
  from py_setitem_Inr(2) [OF v, of "''type''"] py_setitem_Inr(2) [OF v, of "''attrs''"]
    set_uuid_Inr(3) [OF s, of "''type''"] set_uuid_Inr(3) [OF s, of "''attrs''"]
  have "field ''type'' a = field ''type'' a2" "field ''attrs'' a = field ''attrs'' a2"
    by simp_all
  with mark_secret_Inr(1) [OF m] show "secret_marked a a'"
    by (simp add: secret_marked_def)
qed

subsection \<open>What a successful run has computed\<close>

lemma create_provider_payload_Inr:
  assumes "create_provider_payload uuid4 ua n = Inr (p, n')"
  obtains asl asl' where
    "entries asl = entries_at [''data'', ''auth_schema_list''] (get_dict ua)"
    and "for_loop (auth_schema_body uuid4) asl (Suc n) = Inr (asl', n')"
    and "p = JDict [(''spec'', JDict [(''name'', JStr (name_or_dunder_name ua)),
                                      (''resources'', JDict [(''auth_schema_list'', asl')])]),
                    (''metadata'', JDict [(''kind'', JStr ''provider''),
                                          (''uuid'', JStr (uuid4 n))])]"
proof -
  from assms obtain resources asl0 asl asl' where
    r: "py_get_default (get_dict ua) ''data'' (JDict []) = Inr resources"
    and a: "py_get_default resources ''auth_schema_list'' (JList []) = Inr asl0"
    and c: "py_copy asl0 = Inr asl"
    and l: "for_loop (auth_schema_body uuid4) asl (Suc n) = Inr (asl', n')"
    and p: "p = JDict [(''spec'', JDict [(''name'', JStr (name_or_dunder_name ua)),
                                      (''resources'', JDict [(''auth_schema_list'', asl')])]),
                    (''metadata'', JDict [(''kind'', JStr ''provider''),
                                          (''uuid'', JStr (uuid4 n))])]"
    by (auto simp add: create_provider_payload_def and_then_Inr_iff Let_def)
  from entries_at_get_default [OF r, of "[''auth_schema_list'']"]
    entries_at_get_default [OF a, of "[]"] py_copy_Inr [OF c]
  have "entries asl = entries_at [''data'', ''auth_schema_list''] (get_dict ua)"
    by simp
  with l p that show ?thesis by blast
qed

lemma create_resource_type_payload_Inr:
  assumes "create_resource_type_payload uuid4 insert_uuid ua provider_uuid n = Inr (p, n')"
  obtains vars vars1 vars2 outs outs1 outs2 acts n1 n2 n3 n4 where
    "entries vars = entries_at [''data'', ''resource_config'', ''variables''] (get_dict ua)"
    and "entries outs = entries_at [''data'', ''resource_config'', ''cred_attrs''] (get_dict ua)"
    and "for_loop mark_secret_body vars (Suc n) = Inr (vars1, n1)"
    and "for_loop mark_secret_body outs n1 = Inr (outs1, n2)"
    and "for_loop (set_uuid uuid4) vars1 n3 = Inr (vars2, n4)"
    and "for_loop (set_uuid uuid4) outs1 n4 = Inr (outs2, n')"
    and "p = JDict [(''spec'', JDict [(''name'', JStr (name_or_dunder_name ua)),
                      (''resources'', JDict
                         [(''provider_reference'', JDict [(''kind'', JStr ''provider''),
                                                          (''uuid'', provider_uuid)]),
                          (''variable_list'', vars2),
                          (''schema_list'', outs2),
                          (''action_list'', acts)])]),
                    (''metadata'', JDict [(''kind'', JStr ''resource_type''),
                                          (''name'', JStr (name_or_dunder_name ua)),
                                          (''uuid'', JStr (uuid4 n))])]"
proof -
  from assms obtain data resources vars0 vars outs0 outs vars1 n1 outs1 n2 acts n3
      vars2 n4 outs2 where
    d: "py_get_default (get_dict ua) ''data'' (JDict []) = Inr data"
    and r: "py_get_default data ''resource_config'' (JDict []) = Inr resources"
    and v: "py_get_default resources ''variables'' (JList []) = Inr vars0"
    and vc: "py_copy vars0 = Inr vars"
    and ou: "py_get_default resources ''cred_attrs'' (JList []) = Inr outs0"
    and oc: "py_copy outs0 = Inr outs"
    and l1: "for_loop mark_secret_body vars (Suc n) = Inr (vars1, n1)"
    and l2: "for_loop mark_secret_body outs n1 = Inr (outs1, n2)"
    and l3: "for_loop (set_uuid uuid4) vars1 n3 = Inr (vars2, n4)"
    and l4: "for_loop (set_uuid uuid4) outs1 n4 = Inr (outs2, n')"
    and p: "p = JDict [(''spec'', JDict [(''name'', JStr (name_or_dunder_name ua)),
                      (''resources'', JDict
                         [(''provider_reference'', JDict [(''kind'', JStr ''provider''),
                                                          (''uuid'', provider_uuid)]),
                          (''variable_list'', vars2),
                          (''schema_list'', outs2),
                          (''action_list'', acts)])]),
                    (''metadata'', JDict [(''kind'', JStr ''resource_type''),
                                          (''name'', JStr (name_or_dunder_name ua)),
                                          (''uuid'', JStr (uuid4 n))])]"
    by (auto simp add: create_resource_type_payload_def and_then_Inr_iff Let_def)
  from entries_at_get_default [OF d, of "[''resource_config'', ''variables'']"]
    entries_at_get_default [OF r, of "[''variables'']"]
    entries_at_get_default [OF v, of "[]"] py_copy_Inr [OF vc]
  have e1: "entries vars
              = entries_at [''data'', ''resource_config'', ''variables''] (get_dict ua)"
    by simp
  from entries_at_get_default [OF d, of "[''resource_config'', ''cred_attrs'']"]
    entries_at_get_default [OF r, of "[''cred_attrs'']"]
    entries_at_get_default [OF ou, of "[]"] py_copy_Inr [OF oc]
  have e2: "entries outs
              = entries_at [''data'', ''resource_config'', ''cred_attrs''] (get_dict ua)"
    by simp
  from e1 e2 l1 l2 l3 l4 p that show ?thesis by blast
qed

lemma bundle_Inr:
  assumes "create_credential_provider_account_payload uuid4 insert_uuid (AccountClass ua) n
             = Inr (r, n')"
  obtains pp n1 rt n2 res vl vl' where
    "create_provider_payload uuid4 ua n = Inr (pp, n1)"
    and "create_resource_type_payload uuid4 insert_uuid ua (JStr (uuid4 n)) n1 = Inr (rt, n2)"
    and "resources_get_dict ua = Some res"
    and "entries vl = entries_at [''auth_schema_list''] res"
    and "for_loop (variable_body uuid4) vl (Suc n2) = Inr (vl', n')"
    and "r = Payload (JDict
           [(''provider'', pp),
            (''resource_type'', rt),
            (''account'', JDict
               [(''spec'', JDict
                   [(''name'', JStr (name_or_dunder_name ua)),
                    (''resources'', JDict
                       [(''type'', JStr ''custom_provider''),
                        (''data'', JDict
                           [(''provider_reference'',
                               JDict [(''kind'', JStr ''provider''),
                                      (''uuid'', JStr (uuid4 n))]),
                            (''variable_list'', vl')])])]),
                (''metadata'', JDict [(''kind'', JStr ''account''),
                                      (''name'', JStr (name_or_dunder_name ua)),
                                      (''uuid'', JStr (uuid4 n2))])])])"
proof -
  from assms obtain pp n1 pmeta puuid rt n2 res vl vl' rspec rres pref where
    pp: "create_provider_payload uuid4 ua n = Inr (pp, n1)"
    and pm: "py_get_default pp ''metadata'' (JDict []) = Inr pmeta"
    and pu: "get_or_none pmeta ''uuid'' = Inr puuid"
    and rt: "create_resource_type_payload uuid4 insert_uuid ua puuid n1 = Inr (rt, n2)"
    and res: "resources_get_dict ua = Some res"
    and vl: "py_get_default res ''auth_schema_list'' (JList []) = Inr vl"
    and loop: "for_loop (variable_body uuid4) vl (Suc n2) = Inr (vl', n')"
    and rs: "py_get_default rt ''spec'' (JDict []) = Inr rspec"
    and rr: "py_get_default rspec ''resources'' (JDict []) = Inr rres"
    and pr: "py_get_default rres ''provider_reference'' (JDict []) = Inr pref"
    and r: "r = Payload (JDict
           [(''provider'', pp),
            (''resource_type'', rt),
            (''account'', JDict
               [(''spec'', JDict
                   [(''name'', JStr (name_or_dunder_name ua)),
                    (''resources'', JDict
                       [(''type'', JStr ''custom_provider''),
                        (''data'', JDict
                           [(''provider_reference'', pref),
                            (''variable_list'', vl')])])]),
                (''metadata'', JDict [(''kind'', JStr ''account''),
                                      (''name'', JStr (name_or_dunder_name ua)),
                                      (''uuid'', JStr (uuid4 n2))])])])"
    by (auto simp add: create_credential_provider_account_payload_def and_then_Inr_iff
        Let_def split: option.splits)
  from pp pm pu have puuid: "puuid = JStr (uuid4 n)"
    by (elim create_provider_payload_Inr) (auto simp add: py_get_default_def get_or_none_def)
  from rt rs rr pr have "pref = JDict [(''kind'', JStr ''provider''), (''uuid'', puuid)]"
    by (elim create_resource_type_payload_Inr) (auto simp add: py_get_default_def)
  with puuid r have r': "r = Payload (JDict
           [(''provider'', pp),
            (''resource_type'', rt),
            (''account'', JDict
               [(''spec'', JDict
                   [(''name'', JStr (name_or_dunder_name ua)),
                    (''resources'', JDict
                       [(''type'', JStr ''custom_provider''),
                        (''data'', JDict
                           [(''provider_reference'',
                               JDict [(''kind'', JStr ''provider''),
                                      (''uuid'', JStr (uuid4 n))]),
                            (''variable_list'', vl')])])]),
                (''metadata'', JDict [(''kind'', JStr ''account''),
                                      (''name'', JStr (name_or_dunder_name ua)),
                                      (''uuid'', JStr (uuid4 n2))])])])"
    by simp
  from entries_at_get_default [OF vl, of "[]"]
  have "entries vl = entries_at [''auth_schema_list''] res" by simp
  with pp rt puuid res loop r' that show ?thesis by blast
qed

lemma bundle_lists:
  assumes "create_credential_provider_account_payload uuid4 insert_uuid (AccountClass ua) n
             = Inr (Payload b, n')"
  obtains asl asl' vars vars1 vars2 outs outs1 outs2 res vl vl' n1 m1 m2 m3 m4 n2 where
    "entries asl = entries_at [''data'', ''auth_schema_list''] (get_dict ua)"
    and "for_loop (auth_schema_body uuid4) asl (Suc n) = Inr (asl', n1)"
    and "entries_at [''provider'', ''spec'', ''resources'', ''auth_schema_list''] b
           = entries asl'"
    and "entries vars = entries_at [''data'', ''resource_config'', ''variables''] (get_dict ua)"
    and "for_loop mark_secret_body vars (Suc n1) = Inr (vars1, m1)"
    and "for_loop (set_uuid uuid4) vars1 m3 = Inr (vars2, m4)"
    and "entries_at [''resource_type'', ''spec'', ''resources'', ''variable_list''] b
           = entries vars2"
    and "entries outs = entries_at [''data'', ''resource_config'', ''cred_attrs''] (get_dict ua)"
    and "for_loop mark_secret_body outs m1 = Inr (outs1, m2)"
    and "for_loop (set_uuid uuid4) outs1 m4 = Inr (outs2, n2)"
    and "entries_at [''resource_type'', ''spec'', ''resources'', ''schema_list''] b
           = entries outs2"
    and "resources_get_dict ua = Some res"
    and "entries vl = entries_at [''auth_schema_list''] res"
    and "for_loop (variable_body uuid4) vl (Suc n2) = Inr (vl', n')"
    and "entries_at [''account'', ''spec'', ''resources'', ''data'', ''variable_list''] b
           = entries vl'"
proof -
  from assms obtain pp n1 rt n2 res vl vl' where
    pp: "create_provider_payload uuid4 ua n = Inr (pp, n1)"
    and rt: "create_resource_type_payload uuid4 insert_uuid ua (JStr (uuid4 n)) n1
               = Inr (rt, n2)"
    and res: "resources_get_dict ua = Some res"
    and vl: "entries vl = entries_at [''auth_schema_list''] res"
    and loop: "for_loop (variable_body uuid4) vl (Suc n2) = Inr (vl', n')"
    and b: "path [''provider''] b = Some pp" "path [''resource_type''] b = Some rt"
      "entries_at [''account'', ''spec'', ''resources'', ''data'', ''variable_list''] b
         = entries vl'"
    by (elim bundle_Inr) (auto simp add: entries_at_def)
  from pp obtain asl asl' where
    asl: "entries asl = entries_at [''data'', ''auth_schema_list''] (get_dict ua)"
    "for_loop (auth_schema_body uuid4) asl (Suc n) = Inr (asl', n1)"
    "entries_at [''spec'', ''resources'', ''auth_schema_list''] pp = entries asl'"
    by (elim create_provider_payload_Inr) (auto simp add: entries_at_def)
  from rt obtain vars vars1 vars2 outs outs1 outs2 m1 m2 m3 m4 where
    vars: "entries vars
             = entries_at [''data'', ''resource_config'', ''variables''] (get_dict ua)"
    "for_loop mark_secret_body vars (Suc n1) = Inr (vars1, m1)"
    "for_loop (set_uuid uuid4) vars1 m3 = Inr (vars2, m4)"
    "entries_at [''spec'', ''resources'', ''variable_list''] rt = entries vars2"
    and outs: "entries outs
             = entries_at [''data'', ''resource_config'', ''cred_attrs''] (get_dict ua)"
    "for_loop mark_secret_body outs m1 = Inr (outs1, m2)"
    "for_loop (set_uuid uuid4) outs1 m4 = Inr (outs2, n2)"
    "entries_at [''spec'', ''resources'', ''schema_list''] rt = entries outs2"
    by (elim create_resource_type_payload_Inr) (auto simp add: entries_at_def)
  from b(1) asl(3)
  have e1: "entries_at [''provider'', ''spec'', ''resources'', ''auth_schema_list''] b
              = entries asl'"
    by (auto simp add: entries_at_def split: option.splits)
  from b(2) vars(4)
  have e2: "entries_at [''resource_type'', ''spec'', ''resources'', ''variable_list''] b
              = entries vars2"
    by (auto simp add: entries_at_def split: option.splits)
  from b(2) outs(4)
  have e3: "entries_at [''resource_type'', ''spec'', ''resources'', ''schema_list''] b
              = entries outs2"
    by (auto simp add: entries_at_def split: option.splits)
  from that [OF asl(1,2) e1 vars(1,2,3) e2 outs(1,2,3) e3 res vl loop b(3)]
  show ?thesis .
qed

lemma set_uuid_draws:
  "set_uuid uuid4 v n = Inr (v', n') \<Longrightarrow>
     n' = Suc n \<and> field ''uuid'' v' = Some (JStr (uuid4 n))"
  by (simp add: set_uuid_Inr)

lemma set_uuid_keeps_attrs:
  "set_uuid uuid4 v n = Inr (v', n') \<Longrightarrow> field ''attrs'' v' = field ''attrs'' v"
  by (simp add: set_uuid_Inr(3))

lemma variable_body_draws:
  "variable_body uuid4 v n = Inr (v', n') \<Longrightarrow>
     n' = Suc n \<and> field ''uuid'' v' = Some (JStr (uuid4 n))"
  by (simp add: variable_body_Inr)

lemma auth_schema_body_draws:
  "auth_schema_body uuid4 v n = Inr (v', n') \<Longrightarrow>
     n' = Suc n \<and> field ''uuid'' v' = Some (JStr (uuid4 n))"
  by (simp add: auth_schema_body_Inr)

lemma two_pass_secret_marked:
  assumes "for_loop mark_secret_body xs n = Inr (ys, m)"
    and "for_loop (set_uuid uuid4) ys k = Inr (zs, l)"
  shows "list_all2 secret_marked (entries xs) (entries zs)"
proof -
  from assms(1) have "list_all2 secret_marked (entries xs) (entries ys)"
    by (rule for_loop_rel [rotated]) (rule mark_secret_body_Inr)
  moreover from assms(2)
  have "list_all2 (\<lambda>y z. field ''attrs'' z = field ''attrs'' y) (entries ys) (entries zs)"
    by (rule for_loop_rel [rotated]) (rule set_uuid_keeps_attrs)
  ultimately show ?thesis
    by (rule list_all2_trans [rotated]) (rule secret_marked_to)
qed

lemma two_pass_length:
  assumes "for_loop mark_secret_body xs n = Inr (ys, m)"
  shows "length (entries ys) = length (entries xs)"
proof -
  from assms have "list_all2 secret_marked (entries xs) (entries ys)"
    by (rule for_loop_rel [rotated]) (rule mark_secret_body_Inr)
  then show ?thesis by (simp add: list_all2_lengthD)
qed

lemma for_loop_freshly_stamped:
  assumes body: "\<And>x n x' n'. body x n = Inr (x', n') \<Longrightarrow>
                   n' = Suc n \<and> field ''uuid'' x' = Some (JStr (uuid4 n))"
    and run: "for_loop body c n = Inr (c', n')"
  shows "freshly_stamped uuid4 (entries c) (entries c')"
  using for_loop_stamped [of body uuid4, OF body run]
  by (auto simp add: freshly_stamped_def)

lemma freshly_stamped_length:
  "freshly_stamped uuid4 ys zs \<Longrightarrow> length ys = length xs \<Longrightarrow> freshly_stamped uuid4 xs zs"
  unfolding freshly_stamped_def by metis

lemma freshly_stamped_nonempty:
  assumes "freshly_stamped uuid4 d c" and "\<And>k. uuid4 k \<noteq> []" and "e \<in> set c"
  shows "\<exists>u. field ''uuid'' e = Some (JStr u) \<and> u \<noteq> []"
proof -
  from assms(3) obtain i where "i < length c" "e = c ! i"
    by (auto simp add: in_set_conv_nth)
  with assms(1,2) show ?thesis by (auto simp add: freshly_stamped_def)
qed

lemma freshly_stamped_distinct:
  assumes "freshly_stamped uuid4 d c" and "inj uuid4"
  shows "distinct (map (field ''uuid'') c)"
proof -
  from assms(1) obtain s where
    s: "\<forall>i < length c. field ''uuid'' (c ! i) = Some (JStr (uuid4 (s + i)))"
    unfolding freshly_stamped_def by blast
  show ?thesis
  proof (subst distinct_conv_nth, intro allI impI)
    fix i j
    assume "i < length (map (field ''uuid'') c)" "j < length (map (field ''uuid'') c)"
      "i \<noteq> j"
    with s assms(2) show "map (field ''uuid'') c ! i \<noteq> map (field ''uuid'') c ! j"
      by (auto dest: injD)
  qed
qed

lemma for_loop_counter:
  assumes body: "\<And>x n x' n'. body x n = Inr (x', n') \<Longrightarrow>
                   n' = Suc n \<and> field ''uuid'' x' = Some (JStr (uuid4 n))"
    and run: "for_loop body c n = Inr (c', n')"
  shows "n \<le> n'"
proof -
  from run obtain es es' where "for_each_item body es n = Inr (es', n')"
    by (auto simp add: for_loop_def and_then_Inr_iff split: option.splits)
  with for_each_item_stamped [of body uuid4, OF body] show ?thesis by fastforce
qed

subsection \<open>Well-formed accounts are assembled\<close>

lemma typed_entry_setitem:
  "typed_entry v \<Longrightarrow> \<exists>v'. py_setitem v k x = Inr v' \<and> typed_entry v'"
  by (cases v) (auto simp add: update_conv')

lemma typed_entry_mark_secret:
  "typed_entry v \<Longrightarrow> \<exists>v'. mark_secret v = Inr v' \<and> typed_entry v'"
  by (cases v) (auto simp add: mark_secret_def update_conv')

lemma typed_entry_set_uuid:
  "typed_entry v \<Longrightarrow> \<exists>v' n'. set_uuid uuid4 v n = Inr (v', n') \<and> typed_entry v'"
  using typed_entry_setitem [of v "''uuid''" "JStr (uuid4 n)"]
  by (auto simp add: set_uuid_def)

lemma typed_entry_mark_secret_body:
  "typed_entry v \<Longrightarrow> \<exists>v' n'. mark_secret_body v n = Inr (v', n') \<and> typed_entry v'"
  using typed_entry_mark_secret [of v] by (auto simp add: mark_secret_body_def)

lemma typed_entry_variable_body:
  assumes "typed_entry v"
  shows "\<exists>v' n'. variable_body uuid4 v n = Inr (v', n') \<and> typed_entry v'"
proof -
  from typed_entry_set_uuid [OF assms] obtain v1 n1 where
    "set_uuid uuid4 v n = Inr (v1, n1)" "typed_entry v1" by blast
  with typed_entry_mark_secret [of v1] show ?thesis
    by (auto simp add: variable_body_def)
qed

lemma typed_entry_auth_schema_body:
  assumes "typed_entry v"
  shows "\<exists>v' n'. auth_schema_body uuid4 v n = Inr (v', n') \<and> typed_entry v'"
proof -
  from typed_entry_setitem [OF assms] obtain v0 where
    "py_setitem v ''value'' (JStr []) = Inr v0" "typed_entry v0" by blast
  moreover from typed_entry_set_uuid [OF this(2)] obtain v1 n1 where
    "set_uuid uuid4 v0 n = Inr (v1, n1)" "typed_entry v1" by blast
  moreover from typed_entry_mark_secret [OF this(2)] obtain v2 where
    "mark_secret v1 = Inr v2" "typed_entry v2" by blast
  ultimately show ?thesis by (auto simp add: auth_schema_body_def)
qed

lemma for_each_item_returns:
  assumes body: "\<And>x n. typed_entry x \<Longrightarrow>
                   \<exists>x' n'. body x n = Inr (x', n') \<and> typed_entry x'"
  shows "list_all typed_entry xs \<Longrightarrow>
           \<exists>ys n'. for_each_item body xs n = Inr (ys, n') \<and> list_all typed_entry ys"
proof (induction xs arbitrary: n)
  case Nil
  then show ?case by simp
next
  case (Cons x xs)
  from Cons.prems body [of x n] obtain x' n1 where
    x: "body x n = Inr (x', n1)" "typed_entry x'" by auto
  from Cons.prems Cons.IH [of n1] obtain ys n' where
    "for_each_item body xs n1 = Inr (ys, n')" "list_all typed_entry ys" by auto
  with x show ?case by simp
qed

lemma for_loop_returns:
  assumes body: "\<And>x n. typed_entry x \<Longrightarrow>
                   \<exists>x' n'. body x n = Inr (x', n') \<and> typed_entry x'"
    and "list_all typed_entry xs"
  shows "\<exists>ys n'. for_loop body (JList xs) n = Inr (JList ys, n') \<and> list_all typed_entry ys"
  using for_each_item_returns [of body xs n, OF body assms(2)]
  by (auto simp add: for_loop_def)

lemma auth_schema_loop_returns:
  "list_all typed_entry xs \<Longrightarrow>
     \<exists>ys n'. for_loop (auth_schema_body uuid4) (JList xs) n = Inr (JList ys, n')
              \<and> list_all typed_entry ys"
  by (rule for_loop_returns) (erule typed_entry_auth_schema_body)

lemma mark_secret_loop_returns:
  "list_all typed_entry xs \<Longrightarrow>
     \<exists>ys n'. for_loop mark_secret_body (JList xs) n = Inr (JList ys, n')
              \<and> list_all typed_entry ys"
  by (rule for_loop_returns) (erule typed_entry_mark_secret_body)

lemma set_uuid_loop_returns:
  "list_all typed_entry xs \<Longrightarrow>
     \<exists>ys n'. for_loop (set_uuid uuid4) (JList xs) n = Inr (JList ys, n')
              \<and> list_all typed_entry ys"
  by (rule for_loop_returns) (erule typed_entry_set_uuid)

lemma variable_loop_returns:
  "list_all typed_entry xs \<Longrightarrow>
     \<exists>ys n'. for_loop (variable_body uuid4) (JList xs) n = Inr (JList ys, n')
              \<and> list_all typed_entry ys"
  by (rule for_loop_returns) (erule typed_entry_variable_body)

text \<open>An account whose declared lists are lists of typed entries is assembled into a
  bundle, whenever \<open>insert_uuid\<close> returns: the properties below are about runs that
  exist.\<close>

lemma bundle_returned:
  assumes "get_dict ua = JDict g"
    and "map_of g ''data'' = Some (JDict dt)"
    and "map_of dt ''auth_schema_list'' = Some (JList asl)" and "list_all typed_entry asl"
    and "map_of dt ''resource_config'' = Some (JDict rc)"
    and "map_of rc ''variables'' = Some (JList vs)" and "list_all typed_entry vs"
    and "map_of rc ''cred_attrs'' = Some (JList cs)" and "list_all typed_entry cs"
    and "map_of rc ''action_list'' = Some (JList acts)"
    and "\<And>m. \<exists>a m'. insert_uuid (JList acts) m = Inr (a, m')"
    and "resources_get_dict ua = Some (JDict rs)"
    and "map_of rs ''auth_schema_list'' = Some (JList vl)" and "list_all typed_entry vl"
  shows "\<exists>b n'. create_credential_provider_account_payload uuid4 insert_uuid
                   (AccountClass ua) n = Inr (Payload b, n')"
proof -
  from auth_schema_loop_returns [OF assms(4), of uuid4 "Suc n"]
  obtain asl' n1 where
    l1: "for_loop (auth_schema_body uuid4) (JList asl) (Suc n) = Inr (JList asl', n1)"
    by blast
  from mark_secret_loop_returns [OF assms(7), of "Suc n1"]
  obtain vs1 m1 where
    l2: "for_loop mark_secret_body (JList vs) (Suc n1) = Inr (JList vs1, m1)"
    and t2: "list_all typed_entry vs1"
    by blast
  from mark_secret_loop_returns [OF assms(9), of m1]
  obtain cs1 m2 where
    l3: "for_loop mark_secret_body (JList cs) m1 = Inr (JList cs1, m2)"
    and t3: "list_all typed_entry cs1"
    by blast
  from assms(11) obtain a m3 where iu: "insert_uuid (JList acts) m2 = Inr (a, m3)"
    by blast
  from set_uuid_loop_returns [OF t2, of uuid4 m3]
  obtain vs2 m4 where
    l4: "for_loop (set_uuid uuid4) (JList vs1) m3 = Inr (JList vs2, m4)"
    by blast
  from set_uuid_loop_returns [OF t3, of uuid4 m4]
  obtain cs2 n2 where
    l5: "for_loop (set_uuid uuid4) (JList cs1) m4 = Inr (JList cs2, n2)"
    by blast
  from variable_loop_returns [OF assms(14), of uuid4 "Suc n2"]
  obtain vl' n3 where
    l6: "for_loop (variable_body uuid4) (JList vl) (Suc n2) = Inr (JList vl', n3)"
    by blast
  have pp: "\<exists>pp. create_provider_payload uuid4 ua n = Inr (pp, n1)
              \<and> path [''metadata'', ''uuid''] pp = Some (JStr (uuid4 n))"
    using assms(1-3) l1
    by (simp add: create_provider_payload_def py_get_default_def Let_def)
  then obtain pp where pp1: "create_provider_payload uuid4 ua n = Inr (pp, n1)"
    and pp2: "path [''metadata'', ''uuid''] pp = Some (JStr (uuid4 n))" by blast
  have "\<exists>rt. create_resource_type_payload uuid4 insert_uuid ua (JStr (uuid4 n)) n1
               = Inr (rt, n2)
            \<and> path [''spec'', ''resources'', ''provider_reference''] rt \<noteq> None"
    using assms(1,2,5,6,8,10) l2 l3 iu l4 l5
    by (simp add: create_resource_type_payload_def py_get_default_def Let_def)
  then obtain rt where rt1: "create_resource_type_payload uuid4 insert_uuid ua
                               (JStr (uuid4 n)) n1 = Inr (rt, n2)"
    and rt2: "path [''spec'', ''resources'', ''provider_reference''] rt \<noteq> None" by blast
  from pp2 obtain pm where "field ''metadata'' pp = Some pm"
    "field ''uuid'' pm = Some (JStr (uuid4 n))"
    by (auto split: option.splits)
  then have g1: "py_get_default pp ''metadata'' (JDict []) = Inr pm"
    "get_or_none pm ''uuid'' = Inr (JStr (uuid4 n))"
    by (simp_all add: py_get_default_field get_or_none_def)
  from rt2 obtain rspec rres pref where "field ''spec'' rt = Some rspec"
    "field ''resources'' rspec = Some rres" "field ''provider_reference'' rres = Some pref"
    by (auto split: option.splits)
  then have g2: "py_get_default rt ''spec'' (JDict []) = Inr rspec"
    "py_get_default rspec ''resources'' (JDict []) = Inr rres"
    "py_get_default rres ''provider_reference'' (JDict []) = Inr pref"
    by (simp_all add: py_get_default_field)
  have "py_get_default (JDict rs) ''auth_schema_list'' (JList []) = Inr (JList vl)"
    using assms(13) by (simp add: py_get_default_def)
  with pp1 g1 rt1 g2 assms(12) l6 show ?thesis
    by (simp add: create_credential_provider_account_payload_def Let_def)
qed

subsection \<open>The sample run\<close>

lemma sample_run:
  "create_credential_provider_account_payload sample_uuid4 sample_insert_uuid
     (AccountClass sample_account) 0
   = Inr (Payload sample_bundle, 9)"
  by (simp add: create_credential_provider_account_payload_def create_provider_payload_def
      create_resource_type_payload_def sample_account_def sample_auth_schema_list_def
      sample_insert_uuid_def sample_uuid4_def name_or_dunder_name_def py_get_default_def
      get_or_none_def for_loop_def auth_schema_body_def variable_body_def
      mark_secret_body_def set_uuid_def mark_secret_def numeral_eq_Suc and_then_def Let_def
      sample_bundle_def)

lemma sample_provider_run:
  "create_provider_payload sample_uuid4 sample_account 0
   = Inr (JDict
          [(''spec'', JDict
             [(''name'', JStr ''vault''),
              (''resources'', JDict
                 [(''auth_schema_list'', JList
                     [JDict [(''name'', JStr ''token''), (''type'', JStr ''SECRET''),
                             (''value'', JStr []), (''uuid'', JStr ''id-i''),
                             (''attrs'', secret_attrs)],
                      JDict [(''name'', JStr ''url''), (''type'', JStr ''LOCAL''),
                             (''value'', JStr []), (''uuid'', JStr ''id-ii'')]])])]),
           (''metadata'', JDict
              [(''kind'', JStr ''provider''), (''uuid'', JStr ''id-'')])], 3)"
  by (simp add: create_provider_payload_def sample_account_def sample_auth_schema_list_def
      sample_uuid4_def name_or_dunder_name_def py_get_default_def for_loop_def
      auth_schema_body_def set_uuid_def mark_secret_def numeral_eq_Suc and_then_def Let_def)

lemma inj_sample_uuid4: "inj sample_uuid4"
  by (simp add: inj_def sample_uuid4_def)

lemma sample_uuid4_nonempty: "sample_uuid4 k \<noteq> []"
  by (simp add: sample_uuid4_def)

subsection \<open>Cross-references of the bundle\<close>

text \<open>
  Claim C2, as stated, fails in its second half. The reference embedded in the account
  payload is the provider reference taken from the resource-type payload: in the sample
  run it is \<open>{"kind": "provider", "uuid": "id-"}\<close>, the identifier of the provider payload,
  while the resource-type payload's own \<open>metadata.uuid\<close> is \<open>id-iii\<close>.
\<close>

theorem bundle_account_reference_counterexample:
  "create_credential_provider_account_payload sample_uuid4 sample_insert_uuid
     (AccountClass sample_account) 0 = Inr (Payload sample_bundle, 9)
   \<and> path [''account'', ''spec'', ''resources'', ''data'', ''provider_reference'']
        sample_bundle
      = Some (JDict [(''kind'', JStr ''provider''), (''uuid'', JStr ''id-'')])
   \<and> path [''resource_type'', ''metadata'', ''uuid''] sample_bundle = Some (JStr ''id-iii'')
   \<and> path [''account'', ''spec'', ''resources'', ''data'', ''provider_reference'', ''uuid'']
        sample_bundle
      \<noteq> path [''resource_type'', ''metadata'', ''uuid''] sample_bundle"
  by (simp add: sample_run) (simp add: sample_bundle_def)

text \<open>
  Claim C2, amended. In every bundle that is returned, the resource-type payload's
  \<open>spec.resources.provider_reference.uuid\<close> equals the provider payload's
  \<open>metadata.uuid\<close>, and the reference embedded in the account payload
  (\<open>spec.resources.data.provider_reference\<close>) equals the resource-type payload's
  \<open>spec.resources.provider_reference\<close>, that is \<open>{"kind": "provider", "uuid": u}\<close> with \<open>u\<close>
  the provider payload's \<open>metadata.uuid\<close>.
\<close>

theorem bundle_cross_references:
  assumes "create_credential_provider_account_payload uuid4 insert_uuid (AccountClass ua) n
             = Inr (Payload b, n')"
  shows "path [''provider'', ''metadata'', ''uuid''] b = Some (JStr (uuid4 n))
       \<and> path [''resource_type'', ''spec'', ''resources'', ''provider_reference'', ''uuid''] b
           = path [''provider'', ''metadata'', ''uuid''] b
       \<and> path [''resource_type'', ''spec'', ''resources'', ''provider_reference''] b
           = Some (JDict [(''kind'', JStr ''provider''), (''uuid'', JStr (uuid4 n))])
       \<and> path [''account'', ''spec'', ''resources'', ''data'', ''provider_reference''] b
           = path [''resource_type'', ''spec'', ''resources'', ''provider_reference''] b"
  using assms
proof (rule bundle_Inr)
  fix pp n1 rt n2 res vl vl'
  assume pp: "create_provider_payload uuid4 ua n = Inr (pp, n1)"
    and rt: "create_resource_type_payload uuid4 insert_uuid ua (JStr (uuid4 n)) n1
               = Inr (rt, n2)"
    and b: "Payload b = Payload (JDict
           [(''provider'', pp),
            (''resource_type'', rt),
            (''account'', JDict
               [(''spec'', JDict
                   [(''name'', JStr (name_or_dunder_name ua)),
                    (''resources'', JDict
                       [(''type'', JStr ''custom_provider''),
                        (''data'', JDict
                           [(''provider_reference'',
                               JDict [(''kind'', JStr ''provider''),
                                      (''uuid'', JStr (uuid4 n))]),
                            (''variable_list'', vl')])])]),
                (''metadata'', JDict [(''kind'', JStr ''account''),
                                      (''name'', JStr (name_or_dunder_name ua)),
                                      (''uuid'', JStr (uuid4 n2))])])])"
  from pp have p1: "path [''metadata'', ''uuid''] pp = Some (JStr (uuid4 n))"
    by (elim create_provider_payload_Inr) simp
  from rt have r1: "path [''spec'', ''resources'', ''provider_reference''] rt
      = Some (JDict [(''kind'', JStr ''provider''), (''uuid'', JStr (uuid4 n))])"
    by (elim create_resource_type_payload_Inr) simp
  then have r2: "path [''spec'', ''resources'', ''provider_reference'', ''uuid''] rt
      = Some (JStr (uuid4 n))"
    by (auto split: option.splits)
  from b p1 r1 r2 show ?thesis by simp
qed

theorem bundle_cross_references_witness:
  "path [''provider'', ''metadata'', ''uuid''] sample_bundle = Some (JStr (sample_uuid4 0))
   \<and> path [''resource_type'', ''spec'', ''resources'', ''provider_reference'', ''uuid'']
        sample_bundle = Some (JStr ''id-'')
   \<and> path [''account'', ''spec'', ''resources'', ''data'', ''provider_reference'']
        sample_bundle
      = Some (JDict [(''kind'', JStr ''provider''), (''uuid'', JStr ''id-'')])"
  using bundle_cross_references [OF sample_run]
  by (simp add: sample_uuid4_def)

text \<open>With a generator that never repeats an identifier, the account's reference never
  carries the resource-type payload's own identifier.\<close>

lemma bundle_account_reference_differs:
  assumes run: "create_credential_provider_account_payload uuid4 insert_uuid
                  (AccountClass ua) n = Inr (Payload b, n')"
    and "inj uuid4"
  shows "path [''account'', ''spec'', ''resources'', ''data'', ''provider_reference'', ''uuid''] b
           \<noteq> path [''resource_type'', ''metadata'', ''uuid''] b"
  using run
proof (rule bundle_Inr)
  fix pp n1 rt n2 res vl vl'
  assume pp: "create_provider_payload uuid4 ua n = Inr (pp, n1)"
    and rt: "create_resource_type_payload uuid4 insert_uuid ua (JStr (uuid4 n)) n1
               = Inr (rt, n2)"
    and b: "Payload b = Payload (JDict
           [(''provider'', pp),
            (''resource_type'', rt),
            (''account'', JDict
               [(''spec'', JDict
                   [(''name'', JStr (name_or_dunder_name ua)),
                    (''resources'', JDict
                       [(''type'', JStr ''custom_provider''),
                        (''data'', JDict
                           [(''provider_reference'',
                               JDict [(''kind'', JStr ''provider''),
                                      (''uuid'', JStr (uuid4 n))]),
                            (''variable_list'', vl')])])]),
                (''metadata'', JDict [(''kind'', JStr ''account''),
                                      (''name'', JStr (name_or_dunder_name ua)),
                                      (''uuid'', JStr (uuid4 n2))])])])"
  from pp have "Suc n \<le> n1"
    by (elim create_provider_payload_Inr)
      (rule for_loop_counter [of "auth_schema_body uuid4" uuid4], rule auth_schema_body_draws)
  with \<open>inj uuid4\<close> have "uuid4 n1 \<noteq> uuid4 n" by (auto dest: injD)
  moreover from rt have "path [''metadata'', ''uuid''] rt = Some (JStr (uuid4 n1))"
    by (elim create_resource_type_payload_Inr) simp
  ultimately show ?thesis using b by auto
qed

subsection \<open>Secret marking\<close>

text \<open>
  Claim C3. In every bundle that is returned, each entry of the four compiled lists
  (the provider's auth-schema list, the resource type's input and output variables, the
  account's variable list) whose declared type is \<open>SECRET\<close> has \<open>attrs\<close> equal to
  \<open>{"is_secret_modified": true, "type": "SECRET"}\<close>, and each entry of another declared
  type has the \<open>attrs\<close> it was declared with: this step gives it no marker.
\<close>

theorem bundle_secrets_marked:
  assumes "create_credential_provider_account_payload uuid4 insert_uuid (AccountClass ua) n
             = Inr (Payload b, n')"
  shows "\<forall>(declared, compiled) \<in> set (stamped_lists ua b).
           list_all2 secret_marked declared compiled"
  using assms
proof (rule bundle_lists)
  fix asl asl' vars vars1 vars2 outs outs1 outs2 res vl vl' n1 m1 m2 m3 m4 n2
  assume asl: "entries asl = entries_at [''data'', ''auth_schema_list''] (get_dict ua)"
    "for_loop (auth_schema_body uuid4) asl (Suc n) = Inr (asl', n1)"
    "entries_at [''provider'', ''spec'', ''resources'', ''auth_schema_list''] b
       = entries asl'"
  assume vars: "entries vars
       = entries_at [''data'', ''resource_config'', ''variables''] (get_dict ua)"
    "for_loop mark_secret_body vars (Suc n1) = Inr (vars1, m1)"
    "for_loop (set_uuid uuid4) vars1 m3 = Inr (vars2, m4)"
    "entries_at [''resource_type'', ''spec'', ''resources'', ''variable_list''] b
       = entries vars2"
  assume outs: "entries outs
       = entries_at [''data'', ''resource_config'', ''cred_attrs''] (get_dict ua)"
    "for_loop mark_secret_body outs m1 = Inr (outs1, m2)"
    "for_loop (set_uuid uuid4) outs1 m4 = Inr (outs2, n2)"
    "entries_at [''resource_type'', ''spec'', ''resources'', ''schema_list''] b
       = entries outs2"
  assume vl: "resources_get_dict ua = Some res"
    "entries vl = entries_at [''auth_schema_list''] res"
    "for_loop (variable_body uuid4) vl (Suc n2) = Inr (vl', n')"
    "entries_at [''account'', ''spec'', ''resources'', ''data'', ''variable_list''] b
       = entries vl'"
  from asl(2) have "list_all2 secret_marked (entries asl) (entries asl')"
    by (rule for_loop_rel [rotated]) (rule auth_schema_body_Inr(3))
  moreover from vars(2,3) have "list_all2 secret_marked (entries vars) (entries vars2)"
    by (rule two_pass_secret_marked)
  moreover from outs(2,3) have "list_all2 secret_marked (entries outs) (entries outs2)"
    by (rule two_pass_secret_marked)
  moreover from vl(3) have "list_all2 secret_marked (entries vl) (entries vl')"
    by (rule for_loop_rel [rotated]) (rule variable_body_Inr(3))
  ultimately show ?thesis
    using asl(1,3) vars(1,4) outs(1,4) vl(1,2,4) by (simp add: stamped_lists_def)
qed

theorem bundle_secrets_marked_witness:
  "list_all2 secret_marked
     (entries_at [''data'', ''auth_schema_list''] (get_dict sample_account))
     (entries_at [''provider'', ''spec'', ''resources'', ''auth_schema_list''] sample_bundle)
   \<and> list_all2 secret_marked
     (entries_at [''data'', ''resource_config'', ''cred_attrs''] (get_dict sample_account))
     (entries_at [''resource_type'', ''spec'', ''resources'', ''schema_list''] sample_bundle)
   \<and> map (field ''attrs'')
        (entries_at [''provider'', ''spec'', ''resources'', ''auth_schema_list''] sample_bundle)
      = [Some secret_attrs, None]"
  using bundle_secrets_marked [OF sample_run]
  by (simp add: stamped_lists_def) (simp add: sample_bundle_def entries_at_def)

subsection \<open>Identifiers\<close>

text \<open>
  Claim C6, as stated, fails in its last part: an identifier that an entry already
  carries is not kept. The loops assign \<open>entry["uuid"] = str(uuid.uuid4())\<close> without a
  test; in the sample run the auth-schema entry declared with \<open>declared-id\<close> leaves the
  provider payload with \<open>id-i\<close>.
\<close>

theorem declared_identifier_replaced_counterexample:
  "create_credential_provider_account_payload sample_uuid4 sample_insert_uuid
     (AccountClass sample_account) 0 = Inr (Payload sample_bundle, 9)
   \<and> field ''uuid''
       (entries_at [''data'', ''auth_schema_list''] (get_dict sample_account) ! 0)
      = Some (JStr ''declared-id'')
   \<and> field ''uuid''
       (entries_at [''provider'', ''spec'', ''resources'', ''auth_schema_list''] sample_bundle
          ! 0)
      = Some (JStr ''id-i'')"
  by (simp add: sample_run)
    (simp add: sample_bundle_def sample_account_def sample_auth_schema_list_def
      entries_at_def)

text \<open>
  Claim C6, amended. In every bundle that is returned, each of the four stamped lists
  has the length of its declared list and its entries carry consecutive identifiers of
  the generator, whatever identifier they were declared with; so, for a generator that
  never returns the empty string and never repeats an identifier, every entry carries a
  non-empty identifier and the identifiers of one list are pairwise distinct. (The
  action list is stamped by \<open>insert_uuid\<close>, a parameter here: nothing is said about it.)
\<close>

theorem bundle_lists_freshly_stamped:
  assumes "create_credential_provider_account_payload uuid4 insert_uuid (AccountClass ua) n
             = Inr (Payload b, n')"
    and "inj uuid4" and "\<And>k. uuid4 k \<noteq> []"
  shows "\<forall>(declared, compiled) \<in> set (stamped_lists ua b).
           freshly_stamped uuid4 declared compiled
           \<and> (\<forall>e \<in> set compiled. \<exists>u. field ''uuid'' e = Some (JStr u) \<and> u \<noteq> [])
           \<and> distinct (map (field ''uuid'') compiled)"
proof -
  have "\<forall>(declared, compiled) \<in> set (stamped_lists ua b).
          freshly_stamped uuid4 declared compiled"
    using assms(1)
  proof (rule bundle_lists)
    fix asl asl' vars vars1 vars2 outs outs1 outs2 res vl vl' n1 m1 m2 m3 m4 n2
    assume asl: "entries asl = entries_at [''data'', ''auth_schema_list''] (get_dict ua)"
      "for_loop (auth_schema_body uuid4) asl (Suc n) = Inr (asl', n1)"
      "entries_at [''provider'', ''spec'', ''resources'', ''auth_schema_list''] b
         = entries asl'"
    assume vars: "entries vars
         = entries_at [''data'', ''resource_config'', ''variables''] (get_dict ua)"
      "for_loop mark_secret_body vars (Suc n1) = Inr (vars1, m1)"
      "for_loop (set_uuid uuid4) vars1 m3 = Inr (vars2, m4)"
      "entries_at [''resource_type'', ''spec'', ''resources'', ''variable_list''] b
         = entries vars2"
    assume outs: "entries outs
         = entries_at [''data'', ''resource_config'', ''cred_attrs''] (get_dict ua)"
      "for_loop mark_secret_body outs m1 = Inr (outs1, m2)"
      "for_loop (set_uuid uuid4) outs1 m4 = Inr (outs2, n2)"
      "entries_at [''resource_type'', ''spec'', ''resources'', ''schema_list''] b
         = entries outs2"
    assume vl: "resources_get_dict ua = Some res"
      "entries vl = entries_at [''auth_schema_list''] res"
      "for_loop (variable_body uuid4) vl (Suc n2) = Inr (vl', n')"
      "entries_at [''account'', ''spec'', ''resources'', ''data'', ''variable_list''] b
         = entries vl'"
    from asl(2) have "freshly_stamped uuid4 (entries asl) (entries asl')"
      by (rule for_loop_freshly_stamped [rotated]) (rule auth_schema_body_draws)
    moreover from vars(3) have "freshly_stamped uuid4 (entries vars1) (entries vars2)"
      by (rule for_loop_freshly_stamped [rotated]) (rule set_uuid_draws)
    with two_pass_length [OF vars(2)]
    have "freshly_stamped uuid4 (entries vars) (entries vars2)"
      by (rule freshly_stamped_length [rotated])
    moreover from outs(3) have "freshly_stamped uuid4 (entries outs1) (entries outs2)"
      by (rule for_loop_freshly_stamped [rotated]) (rule set_uuid_draws)
    with two_pass_length [OF outs(2)]
    have "freshly_stamped uuid4 (entries outs) (entries outs2)"
      by (rule freshly_stamped_length [rotated])
    moreover from vl(3) have "freshly_stamped uuid4 (entries vl) (entries vl')"
      by (rule for_loop_freshly_stamped [rotated]) (rule variable_body_draws)
    ultimately show ?thesis
      using asl(1,3) vars(1,4) outs(1,4) vl(1,2,4) by (simp add: stamped_lists_def)
  qed
  with assms(2,3) show ?thesis
    by (blast intro: freshly_stamped_nonempty freshly_stamped_distinct)
qed

theorem bundle_lists_freshly_stamped_witness:
  "freshly_stamped sample_uuid4
     (entries_at [''data'', ''auth_schema_list''] (get_dict sample_account))
     (entries_at [''provider'', ''spec'', ''resources'', ''auth_schema_list''] sample_bundle)
   \<and> map (field ''uuid'')
        (entries_at [''provider'', ''spec'', ''resources'', ''auth_schema_list''] sample_bundle)
      = [Some (JStr ''id-i''), Some (JStr ''id-ii'')]"
  using bundle_lists_freshly_stamped [OF sample_run inj_sample_uuid4 sample_uuid4_nonempty]
  by (simp add: stamped_lists_def) (simp add: sample_bundle_def entries_at_def)

subsection \<open>The envelope\<close>

text \<open>
  Claim C7 at the sample account. The metadata of the provider payload is
  \<open>{"kind": "provider", "uuid": ...}\<close>: it has no \<open>name\<close>, although
  \<open>create_provider_payload\<close> computes the name and puts it into \<open>spec\<close>, and although the
  metadata of the resource-type payload and of both account payloads has all three
  fields.
\<close>

theorem provider_metadata_has_no_name:
  "create_credential_provider_account_payload sample_uuid4 sample_insert_uuid
     (AccountClass sample_account) 0 = Inr (Payload sample_bundle, 9)
   \<and> path [''provider'', ''metadata''] sample_bundle
      = Some (JDict [(''kind'', JStr ''provider''), (''uuid'', JStr ''id-'')])
   \<and> path [''provider'', ''metadata'', ''name''] sample_bundle = None"
  by (simp add: sample_run) (simp add: sample_bundle_def)

text \<open>The same for every account: the provider payload's metadata has exactly the
  fields \<open>kind\<close> and \<open>uuid\<close>.\<close>

lemma provider_payload_metadata:
  assumes "create_provider_payload uuid4 ua n = Inr (p, n')"
  shows "path [''metadata''] p
           = Some (JDict [(''kind'', JStr ''provider''), (''uuid'', JStr (uuid4 n))])"
    and "path [''metadata'', ''name''] p = None"
    and "path [''spec'', ''name''] p = Some (JStr (name_or_dunder_name ua))"
  using assms by (elim create_provider_payload_Inr, simp)+

text \<open>The other payloads do carry the three envelope fields.\<close>

lemma resource_type_payload_metadata:
  assumes "create_resource_type_payload uuid4 insert_uuid ua provider_uuid n = Inr (p, n')"
  shows "path [''metadata''] p
           = Some (JDict [(''kind'', JStr ''resource_type''),
                          (''name'', JStr (name_or_dunder_name ua)),
                          (''uuid'', JStr (uuid4 n))])"
  using assms by (elim create_resource_type_payload_Inr) simp

lemma account_payload_envelope:
  "create_account_payload uuid4 (AccountClass ua) n
     = (Payload (JDict
          [(''spec'', JDict [(''name'', JStr (dunder_name ua)),
                             (''resources'', get_dict ua)]),
           (''metadata'', JDict [(''kind'', JStr ''account''),
                                 (''name'', JStr (dunder_name ua)),
                                 (''uuid'', JStr (uuid4 n))])]), Suc n)"
  by (simp add: create_account_payload_def Let_def)

subsection \<open>Values of the provider's auth-schema entries\<close>

text \<open>
  Claim C10. In every provider payload that \<open>create_provider_payload\<close> returns, the
  auth-schema list has as many entries as were declared and the \<open>value\<close> of every entry
  is the empty string, whatever value was declared.
\<close>

theorem provider_values_blanked:
  assumes "create_provider_payload uuid4 ua n = Inr (p, n')"
  shows "length (entries_at [''spec'', ''resources'', ''auth_schema_list''] p)
           = length (entries_at [''data'', ''auth_schema_list''] (get_dict ua))
       \<and> (\<forall>e \<in> set (entries_at [''spec'', ''resources'', ''auth_schema_list''] p).
             field ''value'' e = Some (JStr []))"
  using assms
proof (rule create_provider_payload_Inr)
  fix asl asl'
  assume asl: "entries asl = entries_at [''data'', ''auth_schema_list''] (get_dict ua)"
    and loop: "for_loop (auth_schema_body uuid4) asl (Suc n) = Inr (asl', n')"
    and p: "p = JDict [(''spec'', JDict [(''name'', JStr (name_or_dunder_name ua)),
                                      (''resources'', JDict [(''auth_schema_list'', asl')])]),
                    (''metadata'', JDict [(''kind'', JStr ''provider''),
                                          (''uuid'', JStr (uuid4 n))])]"
  from loop
  have "list_all2 (\<lambda>a a'. field ''value'' a' = Some (JStr [])) (entries asl) (entries asl')"
    by (rule for_loop_rel [rotated]) (rule auth_schema_body_Inr(4))
  then have "length (entries asl') = length (entries asl)"
    and "\<forall>e \<in> set (entries asl'). field ''value'' e = Some (JStr [])"
    by (auto simp add: list_all2_conv_all_nth in_set_conv_nth)
  with asl p show ?thesis by (simp add: entries_at_def)
qed

theorem provider_values_blanked_witness:
  "map (field ''value'')
     (entries_at [''data'', ''auth_schema_list''] (get_dict sample_account))
     = [Some (JStr ''s3cr3t''), Some (JStr ''https://vault'')]
   \<and> map (field ''value'')
     (entries_at [''provider'', ''spec'', ''resources'', ''auth_schema_list''] sample_bundle)
     = [Some (JStr []), Some (JStr [])]"
  using provider_values_blanked [OF sample_provider_run]
  by (simp add: sample_bundle_def sample_account_def sample_auth_schema_list_def
      entries_at_def)


end
